theory Spec2Isabelle
  imports Complex_Main "HOL-Library.Word" "HOL-Library.Signed_Division" "HOL-Library.Sublist"
begin

section \<open>Data model (models/user.go, dto/user_dto.go)\<close>

text \<open>
  Go's \<open>uint\<close> and \<open>int\<close> are 64 bits wide on the build target
  (\<open>GOOS=linux GOARCH=amd64\<close> in the Dockerfile), \<open>int64\<close> everywhere.
  A \<open>time.Time\<close> is modelled by the instant it denotes, as a number of
  nanoseconds; the zero \<open>time.Time\<close> is \<open>zeroTime\<close>. Strings are byte lists.
\<close>

type_synonym uint = "64 word"
type_synonym int64 = "64 word"
type_synonym time = int

definition zeroTime :: time where
  "zeroTime = 0"

text \<open>\<open>models.User\<close>. \<open>DeletedAt\<close> is \<open>gorm.DeletedAt\<close>, a nullable time.\<close>

record User =
  ID :: uint
  Username :: string
  Email :: string
  Password :: string
  FirstName :: string
  LastName :: string
  IsActive :: bool
  CreatedAt :: time
  UpdatedAt :: time
  DeletedAt :: "time option"

text \<open>\<open>dto.CreateUserRequest\<close>, \<open>dto.UpdateUserRequest\<close> (\<open>IsActive\<close> is a
  \<open>*bool\<close>: \<open>None\<close> is the nil pointer) and \<open>dto.UserResponse\<close>.\<close>

record CreateUserRequest =
  cr_Username :: string
  cr_Email :: string
  cr_Password :: string
  cr_FirstName :: string
  cr_LastName :: string

record UpdateUserRequest =
  ur_Username :: string
  ur_Email :: string
  ur_FirstName :: string
  ur_LastName :: string
  ur_IsActive :: "bool option"

record UserResponse =
  resp_ID :: uint
  resp_Username :: string
  resp_Email :: string
  resp_FirstName :: string
  resp_LastName :: string
  resp_IsActive :: bool
  resp_CreatedAt :: time
  resp_UpdatedAt :: time

text \<open>The zero value of \<open>models.User\<close> (\<open>var user models.User\<close>).\<close>

definition zeroUser :: User where
  "zeroUser = \<lparr> ID = 0, Username = [], Email = [], Password = [], FirstName = [],
     LastName = [], IsActive = False, CreatedAt = zeroTime, UpdatedAt = zeroTime,
     DeletedAt = None \<rparr>"

definition ToDTO :: "User \<Rightarrow> UserResponse" where
  "ToDTO u = \<lparr> resp_ID = ID u, resp_Username = Username u, resp_Email = Email u,
     resp_FirstName = FirstName u, resp_LastName = LastName u,
     resp_IsActive = IsActive u, resp_CreatedAt = CreatedAt u,
     resp_UpdatedAt = UpdatedAt u \<rparr>"

definition FromCreateDTO :: "CreateUserRequest \<Rightarrow> User \<Rightarrow> User" where
  "FromCreateDTO req u =
     u\<lparr> Username := cr_Username req, Email := cr_Email req, Password := cr_Password req,
        FirstName := cr_FirstName req, LastName := cr_LastName req, IsActive := True \<rparr>"

text \<open>\<open>UpdateFromDTO\<close>: five guarded assignments, in the source's order.\<close>

definition UpdateFromDTO :: "UpdateUserRequest \<Rightarrow> User \<Rightarrow> User" where
  "UpdateFromDTO req u =
     (let u1 = (if ur_Username req \<noteq> [] then u\<lparr> Username := ur_Username req \<rparr> else u);
          u2 = (if ur_Email req \<noteq> [] then u1\<lparr> Email := ur_Email req \<rparr> else u1);
          u3 = (if ur_FirstName req \<noteq> [] then u2\<lparr> FirstName := ur_FirstName req \<rparr> else u2);
          u4 = (if ur_LastName req \<noteq> [] then u3\<lparr> LastName := ur_LastName req \<rparr> else u3)
      in (case ur_IsActive req of None \<Rightarrow> u4 | Some b \<Rightarrow> u4\<lparr> IsActive := b \<rparr>))"


text \<open>\<open>ToUserListDTO\<close>, without the pagination block it copies through.\<close>

definition ToUserListDTO :: "User list \<Rightarrow> UserResponse list" where
  "ToUserListDTO users = map ToDTO users"

section \<open>Errors and formatting\<close>

text \<open>
  Go \<open>error\<close> values: \<open>gorm.ErrRecordNotFound\<close>, \<open>redis.Nil\<close>, a fresh
  \<open>errors.New(msg)\<close>, an error wrapped by \<open>fmt.Errorf("...: %w", err)\<close>, and an error
  handed up by a driver or library (database, Redis, bcrypt, JSON, AMQP).
\<close>

datatype error =
    ErrRecordNotFound
  | RedisNil
  | ErrorsNew string
  | Errorf string error
  | ErrExternal string

text \<open>The verb \<open>%d\<close> of \<open>fmt.Sprintf\<close>: decimal digits, a minus sign when negative.\<close>

definition digit :: "nat \<Rightarrow> char" where
  "digit d = ''0123456789'' ! d"

function decimal :: "nat \<Rightarrow> string" where
  "decimal n = (if n < 10 then [digit n] else decimal (n div 10) @ [digit (n mod 10)])"
  by pat_completeness auto
termination
  by (relation "measure (\<lambda>n. n)") auto

definition Sprintf_d :: "int \<Rightarrow> string" where
  "Sprintf_d i = (if i < 0 then CHR ''-'' # decimal (nat (- i)) else decimal (nat i))"

section \<open>The entity store (database.DB) and the cache (cache package)\<close>

text \<open>
  The relational store is an external collaborator. It is modelled as the rows of the
  \<open>users\<close> table, with the behaviour the repository relies on and documents
  (scripts/manual_setup.sql: soft delete with \<open>WHERE deleted_at IS NULL\<close>, \<open>updated_at\<close>
  refreshed on Save). Every call can fail: the error the driver returns for a call, if any,
  is an input of the model (\<open>fault\<close>), and so is the id the store assigns on insert.
\<close>

type_synonym table = "User list"

definition live :: "uint \<Rightarrow> User \<Rightarrow> bool" where
  "live i r = (ID r = i \<and> DeletedAt r = None)"

definition db_First :: "error option \<Rightarrow> table \<Rightarrow> uint \<Rightarrow> error + User" where
  "db_First fault rows i =
     (case fault of
        Some e \<Rightarrow> Inl e
      | None \<Rightarrow> (case find (live i) rows of
                   None \<Rightarrow> Inl ErrRecordNotFound
                 | Some r \<Rightarrow> Inr r))"

definition db_Create :: "error option \<Rightarrow> uint \<Rightarrow> time \<Rightarrow> table \<Rightarrow> User \<Rightarrow> error + (table \<times> User)" where
  "db_Create fault newid t rows u =
     (case fault of
        Some e \<Rightarrow> Inl e
      | None \<Rightarrow>
          (let u' = u\<lparr> ID := (if ID u = 0 then newid else ID u),
                       CreatedAt := (if CreatedAt u = zeroTime then t else CreatedAt u),
                       UpdatedAt := (if UpdatedAt u = zeroTime then t else UpdatedAt u) \<rparr>
           in Inr (rows @ [u'], u')))"

definition db_Save :: "error option \<Rightarrow> time \<Rightarrow> table \<Rightarrow> User \<Rightarrow> error + (table \<times> User)" where
  "db_Save fault t rows u =
     (case fault of
        Some e \<Rightarrow> Inl e
      | None \<Rightarrow>
          (let u' = u\<lparr> UpdatedAt := t \<rparr>
           in if list_ex (live (ID u)) rows
              then Inr (map (\<lambda>r. if live (ID u) r then u' else r) rows, u')
              else Inr (rows @ [u'], u')))"

definition db_Delete :: "error option \<Rightarrow> time \<Rightarrow> table \<Rightarrow> User \<Rightarrow> error + table" where
  "db_Delete fault t rows u =
     (case fault of
        Some e \<Rightarrow> Inl e
      | None \<Rightarrow> Inr (map (\<lambda>r. if live (ID u) r then r\<lparr> DeletedAt := Some t \<rparr> else r) rows))"

text \<open>
  The cached value is \<open>json.Marshal(user)\<close>. The struct tags of \<open>models.User\<close> give the
  object eight members; \<open>Password\<close> and \<open>DeletedAt\<close> carry \<open>json:"-"\<close> and are left out.
  \<open>json.Unmarshal\<close> into a destination sets those eight fields and leaves the others.
\<close>

record UserJSON =
  j_id :: uint
  j_username :: string
  j_email :: string
  j_firstName :: string
  j_lastName :: string
  j_isActive :: bool
  j_createdAt :: time
  j_updatedAt :: time

definition Marshal :: "User \<Rightarrow> UserJSON" where
  "Marshal u = \<lparr> j_id = ID u, j_username = Username u, j_email = Email u,
     j_firstName = FirstName u, j_lastName = LastName u, j_isActive = IsActive u,
     j_createdAt = CreatedAt u, j_updatedAt = UpdatedAt u \<rparr>"

definition Unmarshal :: "UserJSON \<Rightarrow> User \<Rightarrow> User" where
  "Unmarshal j dest = dest\<lparr> ID := j_id j, Username := j_username j, Email := j_email j,
     FirstName := j_firstName j, LastName := j_lastName j, IsActive := j_isActive j,
     CreatedAt := j_createdAt j, UpdatedAt := j_updatedAt j \<rparr>"

text \<open>
  A Redis entry: the value, the expiration passed to \<open>SET\<close> (a \<open>time.Duration\<close> in
  nanoseconds, 0 for none) and the instant it was stored. An entry whose expiration has
  run out is no longer returned.
\<close>

record CacheEntry =
  ce_value :: UserJSON
  ce_expiration :: int
  ce_stored :: time

type_synonym redis = "string \<rightharpoonup> CacheEntry"

definition Hour :: int where
  "Hour = 3600000000000"

definition expired :: "time \<Rightarrow> CacheEntry \<Rightarrow> bool" where
  "expired t ent = (ce_expiration ent \<noteq> 0 \<and> ce_stored ent + ce_expiration ent \<le> t)"

definition cache_Set :: "error option \<Rightarrow> time \<Rightarrow> string \<Rightarrow> User \<Rightarrow> int \<Rightarrow> redis \<Rightarrow> error option \<times> redis" where
  "cache_Set fault t key val expiration c =
     (case fault of
        Some e \<Rightarrow> (Some e, c)
      | None \<Rightarrow> (None, c(key \<mapsto> \<lparr> ce_value = Marshal val, ce_expiration = expiration,
                                    ce_stored = t \<rparr>)))"

definition cache_Get :: "error option \<Rightarrow> time \<Rightarrow> string \<Rightarrow> User \<Rightarrow> redis \<Rightarrow> error + User" where
  "cache_Get fault t key dest c =
     (case fault of
        Some e \<Rightarrow> Inl e
      | None \<Rightarrow> (case c key of
                   None \<Rightarrow> Inl RedisNil
                 | Some ent \<Rightarrow> if expired t ent then Inl RedisNil
                              else Inr (Unmarshal (ce_value ent) dest)))"

definition cache_Delete :: "error option \<Rightarrow> string \<Rightarrow> redis \<Rightarrow> error option \<times> redis" where
  "cache_Delete fault key c =
     (case fault of
        Some e \<Rightarrow> (Some e, c)
      | None \<Rightarrow> (None, c(key := None)))"

section \<open>UserService (services/user_service.go)\<close>

text \<open>
  The state the service works on: the table behind \<open>database.DB\<close> and the keys behind
  \<open>cache.RedisClient\<close>. What the outside world decides during one service call is the
  record \<open>env\<close>: the clock, the bcrypt result, the id assigned on insert, and for each
  external call the error it returns, if any. Each service function makes at most one
  store read, one store write, one cache read and one cache write.
\<close>

record state =
  DB :: table
  Redis :: redis

record env =
  env_now :: time
  env_bcrypt :: "string \<Rightarrow> error + string"
  env_new_id :: uint
  env_db_read :: "error option"
  env_db_write :: "error option"
  env_cache_read :: "error option"
  env_cache_write :: "error option"

definition cacheKey :: "uint \<Rightarrow> string" where
  "cacheKey i = ''user:'' @ Sprintf_d (uint i)"

definition CreateUser :: "env \<Rightarrow> CreateUserRequest \<Rightarrow> state \<Rightarrow> (error + UserResponse) \<times> state" where
  "CreateUser e req s =
     (case env_bcrypt e (cr_Password req) of
        Inl err \<Rightarrow> (Inl err, s)
      | Inr hashedPassword \<Rightarrow>
          (let user = (FromCreateDTO req zeroUser)\<lparr> Password := hashedPassword \<rparr>
           in case db_Create (env_db_write e) (env_new_id e) (env_now e) (DB s) user of
                Inl err \<Rightarrow> (Inl err, s)
              | Inr (rows, user') \<Rightarrow>
                  (let c = snd (cache_Set (env_cache_write e) (env_now e)
                                  (cacheKey (ID user')) user' (1 * Hour) (Redis s))
                   in (Inr (ToDTO user'), \<lparr> DB = rows, Redis = c \<rparr>))))"

definition GetUserByID :: "env \<Rightarrow> uint \<Rightarrow> state \<Rightarrow> (error + UserResponse) \<times> state" where
  "GetUserByID e i s =
     (case cache_Get (env_cache_read e) (env_now e) (cacheKey i) zeroUser (Redis s) of
        Inr cachedUser \<Rightarrow> (Inr (ToDTO cachedUser), s)
      | Inl _ \<Rightarrow>
          (case db_First (env_db_read e) (DB s) i of
             Inl err \<Rightarrow>
               (if err = ErrRecordNotFound then (Inl (ErrorsNew ''user not found''), s)
                else (Inl err, s))
           | Inr user \<Rightarrow>
               (let c = snd (cache_Set (env_cache_write e) (env_now e)
                               (cacheKey i) user (1 * Hour) (Redis s))
                in (Inr (ToDTO user), s\<lparr> Redis := c \<rparr>))))"

definition UpdateUser :: "env \<Rightarrow> uint \<Rightarrow> UpdateUserRequest \<Rightarrow> state \<Rightarrow> (error + UserResponse) \<times> state" where
  "UpdateUser e i req s =
     (case db_First (env_db_read e) (DB s) i of
        Inl err \<Rightarrow>
          (if err = ErrRecordNotFound then (Inl (ErrorsNew ''user not found''), s)
           else (Inl err, s))
      | Inr user0 \<Rightarrow>
          (let user1 = UpdateFromDTO req user0
           in case db_Save (env_db_write e) (env_now e) (DB s) user1 of
                Inl err \<Rightarrow> (Inl err, s)
              | Inr (rows, user) \<Rightarrow>
                  (let c = snd (cache_Set (env_cache_write e) (env_now e)
                                  (cacheKey (ID user)) user (1 * Hour) (Redis s))
                   in (Inr (ToDTO user), \<lparr> DB = rows, Redis = c \<rparr>))))"

definition DeleteUser :: "env \<Rightarrow> uint \<Rightarrow> state \<Rightarrow> error option \<times> state" where
  "DeleteUser e i s =
     (case db_First (env_db_read e) (DB s) i of
        Inl err \<Rightarrow>
          (if err = ErrRecordNotFound then (Some (ErrorsNew ''user not found''), s)
           else (Some err, s))
      | Inr user \<Rightarrow>
          (case db_Delete (env_db_write e) (env_now e) (DB s) user of
             Inl err \<Rightarrow> (Some err, s)
           | Inr rows \<Rightarrow>
               (let c = snd (cache_Delete (env_cache_write e) (cacheKey i) (Redis s))
                in (None, \<lparr> DB = rows, Redis = c \<rparr>))))"

section \<open>Pagination (dto/user_dto.go)\<close>

text \<open>
  \<open>/\<close> on \<open>int64\<close> truncates towards zero and panics when the divisor is 0; \<open>+\<close> and
  \<open>-\<close> wrap around; \<open><\<close> and \<open>>\<close> compare the signed values. The conversions between
  \<open>int\<close> and \<open>int64\<close> change nothing at 64 bits.
\<close>

record PaginationMeta =
  CurrentPage :: int64
  PerPage :: int64
  TotalPages :: int64
  TotalItems :: int64
  HasNextPage :: bool
  HasPrevPage :: bool

definition div64 :: "int64 \<Rightarrow> int64 \<Rightarrow> int64 option" where
  "div64 a b = (if b = 0 then None else Some (word_of_int (sint a sdiv sint b)))"

text \<open>\<open>None\<close> is the run-time panic of the division.\<close>

definition NewPaginationMeta :: "int64 \<Rightarrow> int64 \<Rightarrow> int64 \<Rightarrow> PaginationMeta option" where
  "NewPaginationMeta currentPage perPage totalItems =
     (case div64 (totalItems + perPage - 1) perPage of
        None \<Rightarrow> None
      | Some totalPages \<Rightarrow>
          Some \<lparr> CurrentPage = currentPage, PerPage = perPage, TotalPages = totalPages,
                 TotalItems = totalItems,
                 HasNextPage = (sint currentPage < sint totalPages),
                 HasPrevPage = (sint currentPage > 1) \<rparr>)"

section \<open>Request logging (middleware/logging.go)\<close>

text \<open>
  \<open>strings.ToLower\<close>: on a string of ASCII bytes it maps \<open>A..Z\<close> to \<open>a..z\<close> byte by
  byte; on any other string it maps every rune through the Unicode tables of the Go
  library, which are not part of this repository and are the parameter \<open>unicodeLower\<close>.
\<close>

definition isASCII :: "char \<Rightarrow> bool" where
  "isASCII c = ((of_char c :: nat) < 128)"

definition lowerASCII :: "char \<Rightarrow> char" where
  "lowerASCII c =
     (if 65 \<le> (of_char c :: nat) \<and> (of_char c :: nat) \<le> 90
      then char_of ((of_char c :: nat) + 32) else c)"

definition ToLower :: "(string \<Rightarrow> string) \<Rightarrow> string \<Rightarrow> string" where
  "ToLower unicodeLower s = (if list_all isASCII s then map lowerASCII s else unicodeLower s)"

text \<open>\<open>strings.Contains\<close> and \<open>strings.Join\<close>.\<close>

fun Contains :: "string \<Rightarrow> string \<Rightarrow> bool" where
  "Contains [] substr = (substr = [])"
| "Contains (c # s) substr = (prefix substr (c # s) \<or> Contains s substr)"

fun Join :: "string list \<Rightarrow> string \<Rightarrow> string" where
  "Join [] sep = []"
| "Join [x] sep = x"
| "Join (x # y # ys) sep = x @ sep @ Join (y # ys) sep"

definition sensitiveHeaders :: "string list" where
  "sensitiveHeaders = [''authorization'', ''cookie'', ''x-api-key'', ''x-auth-token'', ''password'']"

definition isSensitiveHeader :: "(string \<Rightarrow> string) \<Rightarrow> string \<Rightarrow> bool" where
  "isSensitiveHeader unicodeLower headerName =
     (let headerLower = ToLower unicodeLower headerName
      in list_ex (\<lambda>sensitive. Contains headerLower sensitive) sensitiveHeaders)"

definition sensitiveFields :: "string list" where
  "sensitiveFields = [''password'', ''token'', ''secret'', ''key'', ''auth'', ''credential'']"

definition containsSensitiveData :: "(string \<Rightarrow> string) \<Rightarrow> string \<Rightarrow> bool" where
  "containsSensitiveData unicodeLower body =
     (let bodyLower = ToLower unicodeLower body
      in list_ex (\<lambda>sensitive. Contains bodyLower sensitive) sensitiveFields)"

text \<open>
  The two log fields of \<open>LoggingMiddleware\<close> that are filtered. \<open>headers\<close>: one entry per
  request header, built by the loop over \<open>c.Request.Header\<close>. \<open>request_body\<close>: set only
  when the body read from the request is not empty (\<open>None\<close>: the field is absent).
\<close>

definition LoggingMiddleware_headers :: "(string \<Rightarrow> string) \<Rightarrow> (string \<rightharpoonup> string list) \<Rightarrow> (string \<rightharpoonup> string)" where
  "LoggingMiddleware_headers unicodeLower header =
     (\<lambda>name. case header name of
                None \<Rightarrow> None
              | Some values \<Rightarrow>
                  if \<not> isSensitiveHeader unicodeLower name then Some (Join values '', '')
                  else Some ''[REDACTED]'')"

definition LoggingMiddleware_request_body :: "(string \<Rightarrow> string) \<Rightarrow> string \<Rightarrow> string option" where
  "LoggingMiddleware_request_body unicodeLower bodyBytes =
     (if length bodyBytes > 0 then
        (let bodyStr = (if length bodyBytes > 1000
                        then take 1000 bodyBytes @ ''... [TRUNCATED]'' else bodyBytes)
         in if containsSensitiveData unicodeLower bodyStr
            then Some ''[CONTAINS SENSITIVE DATA]''
            else Some bodyStr)
      else None)"

section \<open>Event publishing (messaging/rabbitmq.go)\<close>

text \<open>
  A \<open>*RabbitMQPublisher\<close> is \<open>None\<close> when nil. The payload \<open>data interface{}\<close> is a
  value of any type \<open>'d\<close>. The message body is the JSON encoding of the value handed to
  \<open>PublishJSON\<close> and is modelled by that value; for the two event wrappers it is a
  \<open>map[string]interface{}\<close>, whose encoding is an object with one member per key.
  The errors of \<open>json.Marshal\<close> and of \<open>channel.Publish\<close> are inputs.
\<close>

record RabbitMQPublisher =
  channel :: bool
  exchange :: string

record 'a Publishing =
  pub_exchange :: string
  pub_key :: string
  pub_mandatory :: bool
  pub_immediate :: bool
  pub_ContentType :: string
  pub_Body :: 'a

datatype 'd member = MString string | MUint uint | MData 'd

definition PublishJSON ::
  "error option \<Rightarrow> error option \<Rightarrow> RabbitMQPublisher option \<Rightarrow> string \<Rightarrow> 'a \<Rightarrow> error + 'a Publishing" where
  "PublishJSON marshal_fault publish_fault r routingKey data =
     (case r of
        None \<Rightarrow> Inl (ErrorsNew ''RabbitMQ publisher not initialized'')
      | Some p \<Rightarrow>
          if \<not> channel p then Inl (ErrorsNew ''RabbitMQ publisher not initialized'')
          else (case marshal_fault of
                  Some err \<Rightarrow> Inl (Errorf ''failed to marshal data to JSON: '' err)
                | None \<Rightarrow>
                    (case publish_fault of
                       Some err \<Rightarrow> Inl (Errorf ''failed to publish message: '' err)
                     | None \<Rightarrow>
                         Inr \<lparr> pub_exchange = exchange p, pub_key = routingKey,
                               pub_mandatory = False, pub_immediate = False,
                               pub_ContentType = ''application/json'',
                               pub_Body = data \<rparr>)))"

text \<open>\<open>timestamp\<close> is the value of \<open>getCurrentTimestamp()\<close>, Unix seconds as \<open>int64\<close>.\<close>

definition PublishUserEvent ::
  "error option \<Rightarrow> error option \<Rightarrow> int64 \<Rightarrow> RabbitMQPublisher option \<Rightarrow> string \<Rightarrow> uint \<Rightarrow> 'd
     \<Rightarrow> error + (string \<rightharpoonup> 'd member) Publishing" where
  "PublishUserEvent marshal_fault publish_fault timestamp r eventType userID data =
     (let routingKey = ''user.'' @ eventType;
          eventData = [''event_type'' \<mapsto> MString eventType,
                       ''user_id'' \<mapsto> MUint userID,
                       ''data'' \<mapsto> MData data,
                       ''timestamp'' \<mapsto> MString (Sprintf_d (sint timestamp))]
      in PublishJSON marshal_fault publish_fault r routingKey eventData)"

definition PublishSystemEvent ::
  "error option \<Rightarrow> error option \<Rightarrow> int64 \<Rightarrow> RabbitMQPublisher option \<Rightarrow> string \<Rightarrow> 'd
     \<Rightarrow> error + (string \<rightharpoonup> 'd member) Publishing" where
  "PublishSystemEvent marshal_fault publish_fault timestamp r eventType data =
     (let routingKey = ''system.'' @ eventType;
          eventData = [''event_type'' \<mapsto> MString eventType,
                       ''data'' \<mapsto> MData data,
                       ''timestamp'' \<mapsto> MString (Sprintf_d (sint timestamp))]
      in PublishJSON marshal_fault publish_fault r routingKey eventData)"

section \<open>Sample inputs\<close>

text \<open>
  Concrete values on which the definitions above are run further down: one stored user,
  two update requests, a sign-up request, a world whose external calls all go through at
  clock \<open>t\<close>, the same with Redis refusing writes, the same with the store refusing
  writes, a state whose cache holds the stored user and a state with an empty cache.
\<close>

definition ex_alice :: User where
  "ex_alice = \<lparr> ID = 1, Username = ''alice'', Email = ''alice@example.com'',
     Password = ''$2a$10$N9qo8uLOickgx2ZMRZoMye'', FirstName = ''Alice'', LastName = ''Liddell'',
     IsActive = True, CreatedAt = 100, UpdatedAt = 100, DeletedAt = None \<rparr>"

definition ex_rename :: UpdateUserRequest where
  "ex_rename = \<lparr> ur_Username = ''alicia'', ur_Email = [], ur_FirstName = [],
     ur_LastName = [], ur_IsActive = None \<rparr>"

definition ex_deactivate :: UpdateUserRequest where
  "ex_deactivate = \<lparr> ur_Username = [], ur_Email = [], ur_FirstName = [],
     ur_LastName = [], ur_IsActive = Some False \<rparr>"

definition ex_signup :: CreateUserRequest where
  "ex_signup = \<lparr> cr_Username = ''bob'', cr_Email = ''bob@example.com'',
     cr_Password = ''hunter22'', cr_FirstName = ''Bob'', cr_LastName = [] \<rparr>"

definition ex_bcrypt :: "string \<Rightarrow> error + string" where
  "ex_bcrypt pw = Inr (''$2a$10$'' @ pw)"

definition ex_env :: "time \<Rightarrow> env" where
  "ex_env t = \<lparr> env_now = t, env_bcrypt = ex_bcrypt, env_new_id = 2, env_db_read = None,
     env_db_write = None, env_cache_read = None, env_cache_write = None \<rparr>"

definition ex_env_redis_down :: "time \<Rightarrow> env" where
  "ex_env_redis_down t =
     (ex_env t)\<lparr> env_cache_write := Some (ErrExternal ''dial tcp: connection refused'') \<rparr>"

definition ex_env_write_fails :: "time \<Rightarrow> env" where
  "ex_env_write_fails t =
     (ex_env t)\<lparr> env_db_write := Some (ErrExternal ''connection reset by peer'') \<rparr>"

definition ex_warm :: state where
  "ex_warm = \<lparr> DB = [ex_alice],
     Redis = [''user:1'' \<mapsto> \<lparr> ce_value = Marshal ex_alice, ce_expiration = Hour,
                                 ce_stored = 100 \<rparr>] \<rparr>"

definition ex_cold :: state where
  "ex_cold = \<lparr> DB = [ex_alice], Redis = Map.empty \<rparr>"

text \<open>A lower-casing table that folds nothing outside ASCII, and a request body of 1000
  filler bytes followed by a form field, a body with the same field in front of the
  filler, the headers of a request, and a publisher whose channel is open.\<close>

definition ex_lower :: "string \<Rightarrow> string" where
  "ex_lower s = map lowerASCII s"

definition ex_long_body :: string where
  "ex_long_body = replicate 1000 (CHR ''a'') @ ''&password=hunter22''"

definition ex_long_sensitive_body :: string where
  "ex_long_sensitive_body = ''password=hunter22&pad='' @ replicate 1000 (CHR ''a'')"

definition ex_header :: "string \<rightharpoonup> string list" where
  "ex_header = [''Authorization'' \<mapsto> [''Bearer eyJhbGciOi''],
                ''X-Token'' \<mapsto> [''eyJhbGciOi''],
                ''Accept'' \<mapsto> [''text/html'', ''application/json'']]"

definition ex_publisher :: "RabbitMQPublisher option" where
  "ex_publisher = Some \<lparr> channel = True, exchange = ''events'' \<rparr>"

section \<open>Facts about the store and the cache\<close>

lemma db_First_Inr:
  assumes "db_First fault rows i = Inr r"
  shows "fault = None" and "find (live i) rows = Some r" and "live i r" and "list_ex (live i) rows"
proof -
  show f: "fault = None" using assms by (cases fault) (simp_all add: db_First_def)
  show g: "find (live i) rows = Some r"
    using assms f by (simp add: db_First_def split: option.splits)
  then obtain k where "k < length rows" "live i (rows ! k)" "r = rows ! k"
    by (auto simp: find_Some_iff)
  then show "live i r" and "list_ex (live i) rows"
    by (auto simp: list_ex_iff)
qed

lemma live_UpdateFromDTO: "live i (UpdateFromDTO req r) = live i r"
  by (simp add: UpdateFromDTO_def live_def Let_def split: option.splits)

lemma find_map_replace:
  "list_ex P rows \<Longrightarrow> P u \<Longrightarrow> find P (map (\<lambda>r. if P r then u else r) rows) = Some u"
  by (induction rows) auto

lemma find_map_none:
  "(\<And>r. \<not> P (f r)) \<Longrightarrow> find P (map (\<lambda>r. if P r then f r else r) rows) = None"
  by (induction rows) auto

lemma find_map_agree:
  "(\<And>r. P (g r) = P r) \<Longrightarrow> find P (map g rows) = map_option g (find P rows)"
  by (induction rows) auto

lemma ToDTO_Unmarshal: "ToDTO (Unmarshal (Marshal u) dest) = ToDTO u"
  by (simp add: ToDTO_def Unmarshal_def Marshal_def)

lemma ToDTO_Password: "ToDTO (u\<lparr>Password := p\<rparr>) = ToDTO u"
  by (simp add: ToDTO_def)

lemma Sprintf_d_uint: "Sprintf_d (uint w) = decimal (unat w)"
  by (simp add: Sprintf_d_def)

lemma GetUserByID_passwords:
  "fst (GetUserByID e i (s\<lparr>DB := map (\<lambda>r. r\<lparr>Password := f r\<rparr>) (DB s)\<rparr>)) = fst (GetUserByID e i s)"
proof -
  have "find (live i) (map (\<lambda>r. r\<lparr>Password := f r\<rparr>) (DB s))
          = map_option (\<lambda>r. r\<lparr>Password := f r\<rparr>) (find (live i) (DB s))"
    by (rule find_map_agree) (simp add: live_def)
  then show ?thesis
    by (auto simp: GetUserByID_def db_First_def Let_def ToDTO_Password
             split: sum.splits option.splits)
qed

lemma UpdateFromDTO_Password:
  "UpdateFromDTO req (u\<lparr>Password := p\<rparr>) = (UpdateFromDTO req u)\<lparr>Password := p\<rparr>"
  by (simp add: UpdateFromDTO_def Let_def split: option.splits)

lemma UpdateUser_passwords:
  "fst (UpdateUser e i req (s\<lparr>DB := map (\<lambda>r. r\<lparr>Password := f r\<rparr>) (DB s)\<rparr>)) = fst (UpdateUser e i req s)"
proof -
  have "find (live i) (map (\<lambda>r. r\<lparr>Password := f r\<rparr>) (DB s))
          = map_option (\<lambda>r. r\<lparr>Password := f r\<rparr>) (find (live i) (DB s))"
    by (rule find_map_agree) (simp add: live_def)
  then show ?thesis
    by (auto simp: UpdateUser_def db_First_def db_Save_def Let_def ToDTO_def UpdateFromDTO_Password
             split: sum.splits option.splits)
qed

lemma CreateUser_hash:
  assumes "env_bcrypt e (cr_Password req) = Inr h" "env_bcrypt e' (cr_Password req) = Inr h'"
    and "e' = e\<lparr>env_bcrypt := env_bcrypt e'\<rparr>"
  shows "fst (CreateUser e' req s) = fst (CreateUser e req s)"
proof -
  have "env_db_write e' = env_db_write e" "env_new_id e' = env_new_id e" "env_now e' = env_now e"
    by (subst assms(3), simp)+
  then show ?thesis using assms(1,2)
    by (auto simp: CreateUser_def db_Create_def Let_def ToDTO_def FromCreateDTO_def zeroUser_def
           split: sum.splits option.splits)
qed

lemma UpdateUser_Inr:
  assumes "fst (UpdateUser e i req s) = Inr resp"
  obtains r0 where "db_First None (DB s) i = Inr r0"
    and "resp = ToDTO ((UpdateFromDTO req r0)\<lparr>UpdatedAt := env_now e\<rparr>)"
    and "DB (snd (UpdateUser e i req s)) =
           map (\<lambda>r. if live i r then (UpdateFromDTO req r0)\<lparr>UpdatedAt := env_now e\<rparr> else r) (DB s)"
    and "Redis (snd (UpdateUser e i req s)) =
           snd (cache_Set (env_cache_write e) (env_now e) (cacheKey i)
                  ((UpdateFromDTO req r0)\<lparr>UpdatedAt := env_now e\<rparr>) Hour (Redis s))"
    and "db_First None (DB (snd (UpdateUser e i req s))) i = Inr ((UpdateFromDTO req r0)\<lparr>UpdatedAt := env_now e\<rparr>)"
proof -
  from assms obtain r0 where r0: "db_First (env_db_read e) (DB s) i = Inr r0"
    by (auto simp: UpdateUser_def split: sum.splits if_splits)
  note f = db_First_Inr[OF r0]
  have id: "ID (UpdateFromDTO req r0) = i" "DeletedAt (UpdateFromDTO req r0) = None"
    using f(3) live_UpdateFromDTO[of i req r0] by (simp_all add: live_def)
  have wr: "env_db_write e = None"
    using assms r0 by (cases "env_db_write e") (simp_all add: UpdateUser_def db_Save_def)
  let ?u = "(UpdateFromDTO req r0)\<lparr>UpdatedAt := env_now e\<rparr>"
  have sv: "db_Save (env_db_write e) (env_now e) (DB s) (UpdateFromDTO req r0)
              = Inr (map (\<lambda>r. if live i r then ?u else r) (DB s), ?u)"
    using wr f(4) id by (simp add: db_Save_def Let_def)
  have 1: "db_First None (DB s) i = Inr r0" using r0 f(1) by simp
  have 2: "resp = ToDTO ?u" using assms r0 sv id by (simp add: UpdateUser_def Let_def)
  have 3: "DB (snd (UpdateUser e i req s)) = map (\<lambda>r. if live i r then ?u else r) (DB s)"
    using r0 sv by (simp add: UpdateUser_def Let_def)
  have 4: "Redis (snd (UpdateUser e i req s)) =
           snd (cache_Set (env_cache_write e) (env_now e) (cacheKey i) ?u Hour (Redis s))"
    using r0 sv id by (simp add: UpdateUser_def Let_def)
  have lu: "live i ?u" using id by (simp add: live_def)
  have 5: "db_First None (DB (snd (UpdateUser e i req s))) i = Inr ?u"
    unfolding 3 db_First_def using find_map_replace[OF f(4) lu] by simp
  from 1 2 3 4 5 show thesis by (rule that)
qed

lemma DeleteUser_None:
  assumes "fst (DeleteUser e i s) = None"
  shows "find (live i) (DB (snd (DeleteUser e i s))) = None"
    and "Redis (snd (DeleteUser e i s)) = snd (cache_Delete (env_cache_write e) (cacheKey i) (Redis s))"
    and "DB (snd (DeleteUser e i s)) = map (\<lambda>r. if live i r then r\<lparr>DeletedAt := Some (env_now e)\<rparr> else r) (DB s)"
    and "\<exists>r0. db_First None (DB s) i = Inr r0"
proof -
  from assms obtain r0 where r0: "db_First (env_db_read e) (DB s) i = Inr r0"
    by (auto simp: DeleteUser_def split: sum.splits if_splits)
  note f = db_First_Inr[OF r0]
  have id: "ID r0 = i" using f(3) by (simp add: live_def)
  have wr: "env_db_write e = None"
    using assms r0 by (cases "env_db_write e") (simp_all add: DeleteUser_def db_Delete_def)
  have dl: "db_Delete (env_db_write e) (env_now e) (DB s) r0
     = Inr (map (\<lambda>r. if live i r then r\<lparr>DeletedAt := Some (env_now e)\<rparr> else r) (DB s))"
    using wr id by (simp add: db_Delete_def)
  show 3: "DB (snd (DeleteUser e i s)) = map (\<lambda>r. if live i r then r\<lparr>DeletedAt := Some (env_now e)\<rparr> else r) (DB s)"
    using r0 dl by (simp add: DeleteUser_def Let_def)
  show "find (live i) (DB (snd (DeleteUser e i s))) = None"
    unfolding 3 by (rule find_map_none) (simp add: live_def)
  show "Redis (snd (DeleteUser e i s)) = snd (cache_Delete (env_cache_write e) (cacheKey i) (Redis s))"
    using r0 dl by (simp add: DeleteUser_def Let_def)
  show "\<exists>r0. db_First None (DB s) i = Inr r0" using r0 f(1) by auto
qed

lemma GetUserByID_miss:
  assumes "isl (cache_Get (env_cache_read e) (env_now e) (cacheKey i) zeroUser (Redis s))"
  shows "GetUserByID e i s =
     (case db_First (env_db_read e) (DB s) i of
        Inl err \<Rightarrow> (if err = ErrRecordNotFound then (Inl (ErrorsNew ''user not found''), s) else (Inl err, s))
      | Inr user \<Rightarrow> (Inr (ToDTO user),
           s\<lparr>Redis := snd (cache_Set (env_cache_write e) (env_now e) (cacheKey i) user Hour (Redis s))\<rparr>))"
  using assms by (auto simp: GetUserByID_def isl_def Let_def split: sum.splits)

text \<open>Unfolding sets for running the definitions on the sample inputs.\<close>

lemmas ex_defs = ex_alice_def ex_rename_def ex_deactivate_def ex_signup_def ex_bcrypt_def ex_env_def
  ex_env_redis_down_def ex_env_write_fails_def ex_warm_def ex_cold_def

lemmas svc_defs = UpdateUser_def GetUserByID_def CreateUser_def DeleteUser_def db_First_def db_Save_def
  db_Create_def db_Delete_def cache_Set_def cache_Get_def cache_Delete_def live_def UpdateFromDTO_def
  FromCreateDTO_def zeroUser_def zeroTime_def expired_def Hour_def ToDTO_def Unmarshal_def Marshal_def Let_def

lemma cacheKey_1: "cacheKey 1 = ''user:1''"
  by (simp add: cacheKey_def Sprintf_d_def digit_def)

lemma cacheKey_2: "cacheKey 2 = ''user:2''"
  by (simp add: cacheKey_def Sprintf_d_def digit_def)

lemma cacheKey_99: "cacheKey 99 = ''user:99''"
  by (simp add: cacheKey_def Sprintf_d_def digit_def)

section \<open>Cache-aside behaviour of the service\<close>

text \<open>
  C1, as the code has it. When \<open>UpdateUser\<close> succeeds and its cache write went through
  (its error is otherwise dropped), a following \<open>GetUserByID\<close> of the same id returns
  exactly the response of the update: the patched user, with the \<open>UpdatedAt\<close> of the save,
  which is also the row now in the store. The cache entry under the user's key has been overwritten with the new value, expiring
  one hour after the update. The read is served from that entry, or from the store when
  the cache read fails or the entry has expired; then the store read must go through.
\<close>

theorem update_then_get:
  assumes upd: "fst (UpdateUser e i req s) = Inr resp"
    and wr: "env_cache_write e = None"
    and rd: "(env_cache_read e' = None \<and> env_now e' < env_now e + Hour) \<or> env_db_read e' = None"
  shows "fst (GetUserByID e' i (snd (UpdateUser e i req s))) = Inr resp
     \<and> (\<exists>r0. db_First None (DB s) i = Inr r0
            \<and> resp = ToDTO ((UpdateFromDTO req r0)\<lparr>UpdatedAt := env_now e\<rparr>)
            \<and> db_First None (DB (snd (UpdateUser e i req s))) i
                 = Inr ((UpdateFromDTO req r0)\<lparr>UpdatedAt := env_now e\<rparr>)
            \<and> Redis (snd (UpdateUser e i req s)) (cacheKey i) =
                Some \<lparr>ce_value = Marshal ((UpdateFromDTO req r0)\<lparr>UpdatedAt := env_now e\<rparr>),
                      ce_expiration = Hour, ce_stored = env_now e\<rparr>)"
proof -
  let ?s' = "snd (UpdateUser e i req s)"
  from upd obtain r0 where
    r0: "db_First None (DB s) i = Inr r0"
    and resp: "resp = ToDTO ((UpdateFromDTO req r0)\<lparr>UpdatedAt := env_now e\<rparr>)"
    and c': "Redis ?s' = snd (cache_Set (env_cache_write e) (env_now e) (cacheKey i)
            ((UpdateFromDTO req r0)\<lparr>UpdatedAt := env_now e\<rparr>) Hour (Redis s))"
    and first: "db_First None (DB ?s') i = Inr ((UpdateFromDTO req r0)\<lparr>UpdatedAt := env_now e\<rparr>)"
    by (rule UpdateUser_Inr)
  let ?u = "(UpdateFromDTO req r0)\<lparr>UpdatedAt := env_now e\<rparr>"
  have ent: "Redis ?s' (cacheKey i) = Some \<lparr>ce_value = Marshal ?u, ce_expiration = Hour, ce_stored = env_now e\<rparr>"
    using c' wr by (simp add: cache_Set_def)
  have "fst (GetUserByID e' i ?s') = Inr resp"
  proof (cases "cache_Get (env_cache_read e') (env_now e') (cacheKey i) zeroUser (Redis ?s')")
    case (Inr cu)
    then have "ToDTO cu = ToDTO ?u"
      using ent by (auto simp: cache_Get_def ToDTO_Unmarshal split: option.splits if_splits)
    with Inr show ?thesis by (simp add: GetUserByID_def resp)
  next
    case (Inl err)
    then have "env_db_read e' = None"
      using rd ent by (auto simp: cache_Get_def expired_def split: option.splits if_splits)
    with Inl first show ?thesis by (simp add: GetUserByID_def resp Let_def)
  qed
  with r0 resp first ent show ?thesis by blast
qed

theorem update_then_get_witness:
  "fst (UpdateUser (ex_env 200) 1 ex_rename ex_warm)
       = Inr (ToDTO (ex_alice\<lparr>Username := ''alicia'', UpdatedAt := 200\<rparr>))
   \<and> env_cache_write (ex_env 200) = None
   \<and> env_cache_read (ex_env 201) = None \<and> env_now (ex_env 201) < env_now (ex_env 200) + Hour
   \<and> fst (GetUserByID (ex_env 201) 1 (snd (UpdateUser (ex_env 200) 1 ex_rename ex_warm)))
       = Inr (ToDTO (ex_alice\<lparr>Username := ''alicia'', UpdatedAt := 200\<rparr>))"
proof -
  have h1: "fst (UpdateUser (ex_env 200) 1 ex_rename ex_warm)
       = Inr (ToDTO (ex_alice\<lparr>Username := ''alicia'', UpdatedAt := 200\<rparr>))"
    by (simp add: ex_defs svc_defs cacheKey_1)
  have h2: "env_cache_write (ex_env 200) = None" by (simp add: ex_defs)
  have h3: "env_cache_read (ex_env 201) = None \<and> env_now (ex_env 201) < env_now (ex_env 200) + Hour"
    by (simp add: ex_defs Hour_def)
  from h3 have h3': "(env_cache_read (ex_env 201) = None \<and> env_now (ex_env 201) < env_now (ex_env 200) + Hour)
     \<or> env_db_read (ex_env 201) = None" by (rule disjI1)
  show ?thesis using update_then_get[OF h1 h2 h3'] h1 h2 h3 by blast
qed

theorem update_then_get_counterexample:
  "fst (UpdateUser (ex_env_redis_down 200) 1 ex_rename ex_warm)
       = Inr (ToDTO (ex_alice\<lparr>Username := ''alicia'', UpdatedAt := 200\<rparr>))
   \<and> fst (GetUserByID (ex_env 201) 1 (snd (UpdateUser (ex_env_redis_down 200) 1 ex_rename ex_warm)))
       = Inr (ToDTO ex_alice)
   \<and> resp_Username (ToDTO ex_alice) = ''alice''
   \<and> resp_Username (ToDTO (ex_alice\<lparr>Username := ''alicia'', UpdatedAt := 200\<rparr>)) = ''alicia''"
  by (simp add: ex_defs svc_defs cacheKey_1)

text \<open>
  C4, as the code has it. When \<open>DeleteUser\<close> succeeds and its cache delete went through
  (its error is otherwise dropped), no entry is left under the user's cache key, a following
  \<open>GetUserByID\<close> of the same id never returns a user: the store has no live row with
  that id, and the read returns the error "user not found" when its store call goes through
  and the store's error otherwise.
\<close>

theorem delete_then_get:
  assumes del: "fst (DeleteUser e i s) = None" and wr: "env_cache_write e = None"
  shows "Redis (snd (DeleteUser e i s)) (cacheKey i) = None
     \<and> isl (fst (GetUserByID e' i (snd (DeleteUser e i s))))
     \<and> (env_db_read e' = None \<longrightarrow>
          fst (GetUserByID e' i (snd (DeleteUser e i s))) = Inl (ErrorsNew ''user not found''))
     \<and> (\<forall>err. env_db_read e' = Some err \<longrightarrow>
          fst (GetUserByID e' i (snd (DeleteUser e i s)))
            = Inl (if err = ErrRecordNotFound then ErrorsNew ''user not found'' else err))
     \<and> find (live i) (DB (snd (DeleteUser e i s))) = None"
proof -
  let ?s' = "snd (DeleteUser e i s)"
  from DeleteUser_None[OF del] wr
  have nf: "find (live i) (DB ?s') = None" and c: "Redis ?s' (cacheKey i) = None"
    by (auto simp: cache_Delete_def)
  have miss: "isl (cache_Get (env_cache_read e') (env_now e') (cacheKey i) zeroUser (Redis ?s'))"
    using c by (simp add: cache_Get_def split: option.splits)
  have nofirst: "isl (db_First (env_db_read e') (DB ?s') i)"
    using nf by (simp add: db_First_def split: option.splits)
  have 2: "isl (fst (GetUserByID e' i ?s'))"
    using nofirst unfolding GetUserByID_miss[OF miss] by (auto simp: isl_def)
  have 3: "fst (GetUserByID e' i ?s') = Inl (ErrorsNew ''user not found'')" if "env_db_read e' = None"
  proof -
    have "db_First (env_db_read e') (DB ?s') i = Inl ErrRecordNotFound"
      using nf that by (simp add: db_First_def)
    then show ?thesis unfolding GetUserByID_miss[OF miss] by simp
  qed
  have 4: "fst (GetUserByID e' i ?s')
            = Inl (if err = ErrRecordNotFound then ErrorsNew ''user not found'' else err)"
    if "env_db_read e' = Some err" for err
    unfolding GetUserByID_miss[OF miss] using that by (simp add: db_First_def)
  from c 2 3 4 nf show ?thesis by blast
qed

theorem delete_then_get_witness:
  "fst (DeleteUser (ex_env 200) 1 ex_warm) = None \<and> env_cache_write (ex_env 200) = None
   \<and> env_db_read (ex_env 201) = None
   \<and> Redis (snd (DeleteUser (ex_env 200) 1 ex_warm)) (cacheKey 1) = None
   \<and> fst (GetUserByID (ex_env 201) 1 (snd (DeleteUser (ex_env 200) 1 ex_warm)))
        = Inl (ErrorsNew ''user not found'')"
proof -
  have h1: "fst (DeleteUser (ex_env 200) 1 ex_warm) = None"
    by (simp add: ex_defs svc_defs cacheKey_1)
  have h2: "env_cache_write (ex_env 200) = None" by (simp add: ex_defs)
  have h3: "env_db_read (ex_env 201) = None" by (simp add: ex_defs)
  show ?thesis using delete_then_get[OF h1 h2, of "ex_env 201"] h1 h2 h3 by blast
qed

theorem delete_then_get_counterexample:
  "fst (DeleteUser (ex_env_redis_down 200) 1 ex_warm) = None
   \<and> Redis (snd (DeleteUser (ex_env_redis_down 200) 1 ex_warm)) (cacheKey 1)
        = Some \<lparr> ce_value = Marshal ex_alice, ce_expiration = Hour, ce_stored = 100 \<rparr>
   \<and> fst (GetUserByID (ex_env 201) 1 (snd (DeleteUser (ex_env_redis_down 200) 1 ex_warm)))
        = Inr (ToDTO ex_alice)"
  by (simp add: ex_defs svc_defs cacheKey_1)

text \<open>
  C3. Whenever a service operation returns an error, the cache is exactly as it was before
  the call, and so is the table: \<open>CreateUser\<close> returns before \<open>cache.Set\<close> when bcrypt or the
  store create fails, \<open>GetUserByID\<close> writes nothing when the store reports not-found or any
  other error, \<open>UpdateUser\<close> returns before \<open>cache.Set\<close> when the read or the save fails, and
  \<open>DeleteUser\<close> returns before \<open>cache.Delete\<close> when the read or the store delete fails.
\<close>

theorem failure_leaves_cache:
  "(isl (fst (CreateUser e req s)) \<longrightarrow>
       Redis (snd (CreateUser e req s)) = Redis s \<and> DB (snd (CreateUser e req s)) = DB s)
   \<and> (isl (fst (GetUserByID e i s)) \<longrightarrow>
       Redis (snd (GetUserByID e i s)) = Redis s \<and> DB (snd (GetUserByID e i s)) = DB s)
   \<and> (isl (fst (UpdateUser e i upd s)) \<longrightarrow>
       Redis (snd (UpdateUser e i upd s)) = Redis s \<and> DB (snd (UpdateUser e i upd s)) = DB s)
   \<and> (fst (DeleteUser e i s) \<noteq> None \<longrightarrow>
       Redis (snd (DeleteUser e i s)) = Redis s \<and> DB (snd (DeleteUser e i s)) = DB s)"
proof -
  have 1: "isl (fst (CreateUser e req s)) \<longrightarrow> snd (CreateUser e req s) = s"
    by (auto simp: CreateUser_def Let_def split: sum.splits prod.splits)
  have 2: "isl (fst (GetUserByID e i s)) \<longrightarrow> snd (GetUserByID e i s) = s"
    by (auto simp: GetUserByID_def Let_def split: sum.splits)
  have 3: "isl (fst (UpdateUser e i upd s)) \<longrightarrow> snd (UpdateUser e i upd s) = s"
    by (auto simp: UpdateUser_def Let_def split: sum.splits prod.splits)
  have 4: "fst (DeleteUser e i s) \<noteq> None \<longrightarrow> snd (DeleteUser e i s) = s"
    by (auto simp: DeleteUser_def Let_def split: sum.splits)
  from 1 2 3 4 show ?thesis by simp
qed

theorem failure_leaves_cache_witness:
  "fst (CreateUser (ex_env_write_fails 200) ex_signup ex_warm) = Inl (ErrExternal ''connection reset by peer'')
   \<and> Redis (snd (CreateUser (ex_env_write_fails 200) ex_signup ex_warm)) = Redis ex_warm
   \<and> fst (GetUserByID (ex_env 200) 99 ex_warm) = Inl (ErrorsNew ''user not found'')
   \<and> Redis (snd (GetUserByID (ex_env 200) 99 ex_warm)) = Redis ex_warm
   \<and> fst (UpdateUser (ex_env_write_fails 200) 1 ex_rename ex_warm) = Inl (ErrExternal ''connection reset by peer'')
   \<and> Redis (snd (UpdateUser (ex_env_write_fails 200) 1 ex_rename ex_warm)) = Redis ex_warm
   \<and> fst (DeleteUser (ex_env_write_fails 200) 1 ex_warm) = Some (ErrExternal ''connection reset by peer'')
   \<and> Redis (snd (DeleteUser (ex_env_write_fails 200) 1 ex_warm)) = Redis ex_warm"
proof -
  have c: "fst (CreateUser (ex_env_write_fails 200) ex_signup ex_warm) = Inl (ErrExternal ''connection reset by peer'')"
    by (simp add: ex_defs svc_defs)
  have g: "fst (GetUserByID (ex_env 200) 99 ex_warm) = Inl (ErrorsNew ''user not found'')"
    by (simp add: ex_defs svc_defs cacheKey_99)
  have u: "fst (UpdateUser (ex_env_write_fails 200) 1 ex_rename ex_warm) = Inl (ErrExternal ''connection reset by peer'')"
    by (simp add: ex_defs svc_defs)
  have d: "fst (DeleteUser (ex_env_write_fails 200) 1 ex_warm) = Some (ErrExternal ''connection reset by peer'')"
    by (simp add: ex_defs svc_defs)
  show ?thesis
    using failure_leaves_cache[of "ex_env_write_fails 200" ex_signup ex_warm 1 ex_rename]
      failure_leaves_cache[of "ex_env 200" ex_signup ex_warm 99 ex_rename] c g u d
    by simp
qed

lemma cache_Set_other: "k' \<noteq> k \<Longrightarrow> snd (cache_Set f t k u x c) k' = c k'"
  by (simp add: cache_Set_def split: option.splits)

lemma cache_Set_at:
  "snd (cache_Set None t k u x c) k = Some \<lparr>ce_value = Marshal u, ce_expiration = x, ce_stored = t\<rparr>"
  by (simp add: cache_Set_def)

lemma CreateUser_Inr:
  assumes "fst (CreateUser e req s) = Inr resp"
  obtains u where "resp = ToDTO u"
    and "Redis (snd (CreateUser e req s)) =
           snd (cache_Set (env_cache_write e) (env_now e) (cacheKey (resp_ID resp)) u Hour (Redis s))"
    and "DB (snd (CreateUser e req s)) = DB s @ [u]"
proof -
  from assms obtain h where h: "env_bcrypt e (cr_Password req) = Inr h"
    by (auto simp: CreateUser_def split: sum.splits)
  let ?user = "(FromCreateDTO req zeroUser)\<lparr>Password := h\<rparr>"
  from assms h obtain rows u where c: "db_Create (env_db_write e) (env_new_id e) (env_now e) (DB s) ?user = Inr (rows, u)"
    by (auto simp: CreateUser_def Let_def split: sum.splits)
  then have rows: "rows = DB s @ [u]"
    by (auto simp: db_Create_def Let_def split: option.splits)
  have r: "resp = ToDTO u" using assms h c by (simp add: CreateUser_def Let_def)
  then have id: "resp_ID resp = ID u" by (simp add: ToDTO_def)
  have 2: "Redis (snd (CreateUser e req s)) =
           snd (cache_Set (env_cache_write e) (env_now e) (cacheKey (resp_ID resp)) u Hour (Redis s))"
    using h c id by (simp add: CreateUser_def Let_def)
  have 3: "DB (snd (CreateUser e req s)) = DB s @ [u]"
    using h c rows by (simp add: CreateUser_def Let_def)
  from r 2 3 show thesis by (rule that)
qed

lemma GetUserByID_frame: "k \<noteq> cacheKey i \<Longrightarrow> Redis (snd (GetUserByID e i s)) k = Redis s k"
  by (auto simp: GetUserByID_def Let_def cache_Set_other split: sum.splits)

lemma GetUserByID_fill:
  assumes "isl (cache_Get (env_cache_read e) (env_now e) (cacheKey i) zeroUser (Redis s))"
    and "fst (GetUserByID e i s) = Inr resp" and "env_cache_write e = None"
  shows "\<exists>u. resp = ToDTO u \<and> db_First None (DB s) i = Inr u \<and>
           Redis (snd (GetUserByID e i s)) (cacheKey i)
             = Some \<lparr>ce_value = Marshal u, ce_expiration = Hour, ce_stored = env_now e\<rparr>"
proof -
  from assms(2) obtain u where u: "db_First (env_db_read e) (DB s) i = Inr u"
    unfolding GetUserByID_miss[OF assms(1)] by (auto split: sum.splits if_splits)
  from db_First_Inr(1)[OF u] u have "db_First None (DB s) i = Inr u" by simp
  with u assms(2,3) show ?thesis
    unfolding GetUserByID_miss[OF assms(1)] by (auto simp: cache_Set_at)
qed

text \<open>
  C8, as the code has it. The cache key of the user with id \<open>i\<close> is \<open>user:\<close> followed by the
  decimal digits of \<open>i\<close>. \<open>CreateUser\<close>, \<open>GetUserByID\<close>, \<open>UpdateUser\<close> and \<open>DeleteUser\<close> change
  the cache under that key only. The entry that a successful \<open>CreateUser\<close>, a successful
  \<open>GetUserByID\<close> after a cache miss, and a successful \<open>UpdateUser\<close> store, when the cache
  write goes through, carries the expiration \<open>1*time.Hour\<close> (3600 seconds, in nanoseconds).
\<close>

theorem cache_key_and_ttl:
  "cacheKey i = ''user:'' @ decimal (unat i)
   \<and> Hour = 60 * 60 * 1000000000
   \<and> (\<forall>resp. fst (CreateUser e req s) = Inr resp \<longrightarrow>
         (\<forall>k. k \<noteq> cacheKey (resp_ID resp) \<longrightarrow> Redis (snd (CreateUser e req s)) k = Redis s k)
         \<and> (env_cache_write e = None \<longrightarrow>
              (\<exists>ent. Redis (snd (CreateUser e req s)) (cacheKey (resp_ID resp)) = Some ent
                     \<and> ce_expiration ent = Hour \<and> ce_stored ent = env_now e)))
   \<and> (\<forall>k. k \<noteq> cacheKey i \<longrightarrow> Redis (snd (GetUserByID e i s)) k = Redis s k)
   \<and> (\<forall>resp. isl (cache_Get (env_cache_read e) (env_now e) (cacheKey i) zeroUser (Redis s))
              \<and> fst (GetUserByID e i s) = Inr resp \<and> env_cache_write e = None \<longrightarrow>
         (\<exists>ent. Redis (snd (GetUserByID e i s)) (cacheKey i) = Some ent
                \<and> ce_expiration ent = Hour \<and> ce_stored ent = env_now e))
   \<and> (\<forall>resp. fst (UpdateUser e i upd s) = Inr resp \<longrightarrow>
         (\<forall>k. k \<noteq> cacheKey i \<longrightarrow> Redis (snd (UpdateUser e i upd s)) k = Redis s k)
         \<and> (env_cache_write e = None \<longrightarrow>
              (\<exists>ent. Redis (snd (UpdateUser e i upd s)) (cacheKey i) = Some ent
                     \<and> ce_expiration ent = Hour \<and> ce_stored ent = env_now e)))
   \<and> (\<forall>k. k \<noteq> cacheKey i \<longrightarrow> Redis (snd (DeleteUser e i s)) k = Redis s k)"
proof -
  have 1: "cacheKey i = ''user:'' @ decimal (unat i)"
    by (simp add: cacheKey_def Sprintf_d_uint)
  have 2: "Hour = 60 * 60 * 1000000000" by (simp add: Hour_def)
  have 3: "(\<forall>k. k \<noteq> cacheKey (resp_ID resp) \<longrightarrow> Redis (snd (CreateUser e req s)) k = Redis s k)
         \<and> (env_cache_write e = None \<longrightarrow>
              (\<exists>ent. Redis (snd (CreateUser e req s)) (cacheKey (resp_ID resp)) = Some ent
                     \<and> ce_expiration ent = Hour \<and> ce_stored ent = env_now e))"
    if "fst (CreateUser e req s) = Inr resp" for resp
  proof -
    from that obtain u where
      "Redis (snd (CreateUser e req s)) =
           snd (cache_Set (env_cache_write e) (env_now e) (cacheKey (resp_ID resp)) u Hour (Redis s))"
      by (rule CreateUser_Inr)
    then show ?thesis by (auto simp: cache_Set_other cache_Set_at)
  qed
  have 4: "\<forall>k. k \<noteq> cacheKey i \<longrightarrow> Redis (snd (GetUserByID e i s)) k = Redis s k"
    by (simp add: GetUserByID_frame)
  have 5: "\<exists>ent. Redis (snd (GetUserByID e i s)) (cacheKey i) = Some ent
                \<and> ce_expiration ent = Hour \<and> ce_stored ent = env_now e"
    if "isl (cache_Get (env_cache_read e) (env_now e) (cacheKey i) zeroUser (Redis s))
              \<and> fst (GetUserByID e i s) = Inr resp \<and> env_cache_write e = None" for resp
    using GetUserByID_fill[of e i s resp] that by auto
  have 6: "(\<forall>k. k \<noteq> cacheKey i \<longrightarrow> Redis (snd (UpdateUser e i upd s)) k = Redis s k)
         \<and> (env_cache_write e = None \<longrightarrow>
              (\<exists>ent. Redis (snd (UpdateUser e i upd s)) (cacheKey i) = Some ent
                     \<and> ce_expiration ent = Hour \<and> ce_stored ent = env_now e))"
    if "fst (UpdateUser e i upd s) = Inr resp" for resp
  proof -
    from that obtain r0 where
      "Redis (snd (UpdateUser e i upd s)) =
           snd (cache_Set (env_cache_write e) (env_now e) (cacheKey i)
                  ((UpdateFromDTO upd r0)\<lparr>UpdatedAt := env_now e\<rparr>) Hour (Redis s))"
      by (rule UpdateUser_Inr)
    then show ?thesis by (auto simp: cache_Set_other cache_Set_at)
  qed
  have 7: "\<forall>k. k \<noteq> cacheKey i \<longrightarrow> Redis (snd (DeleteUser e i s)) k = Redis s k"
    by (auto simp: DeleteUser_def Let_def cache_Delete_def split: sum.splits option.splits)
  from 1 2 3 4 5 6 7 show ?thesis by blast
qed

theorem cache_key_and_ttl_witness:
  "cacheKey 2 = ''user:2''
   \<and> fst (CreateUser (ex_env 200) ex_signup ex_cold) =
        Inr \<lparr> resp_ID = 2, resp_Username = ''bob'', resp_Email = ''bob@example.com'',
              resp_FirstName = ''Bob'', resp_LastName = [], resp_IsActive = True,
              resp_CreatedAt = 200, resp_UpdatedAt = 200 \<rparr>
   \<and> map_option ce_expiration (Redis (snd (CreateUser (ex_env 200) ex_signup ex_cold)) ''user:2'') = Some 3600000000000
   \<and> Redis (snd (CreateUser (ex_env 200) ex_signup ex_cold)) ''user:1'' = None
   \<and> fst (GetUserByID (ex_env 200) 1 ex_cold) = Inr (ToDTO ex_alice)
   \<and> map_option ce_expiration (Redis (snd (GetUserByID (ex_env 200) 1 ex_cold)) ''user:1'') = Some 3600000000000
   \<and> fst (UpdateUser (ex_env 200) 1 ex_rename ex_cold) = Inr (ToDTO (ex_alice\<lparr>Username := ''alicia'', UpdatedAt := 200\<rparr>))
   \<and> map_option ce_expiration (Redis (snd (UpdateUser (ex_env 200) 1 ex_rename ex_cold)) ''user:1'') = Some 3600000000000"
proof -
  note T = cache_key_and_ttl[of _ "ex_env 200" ex_signup ex_cold ex_rename]
  have c: "fst (CreateUser (ex_env 200) ex_signup ex_cold) =
        Inr \<lparr> resp_ID = 2, resp_Username = ''bob'', resp_Email = ''bob@example.com'',
              resp_FirstName = ''Bob'', resp_LastName = [], resp_IsActive = True,
              resp_CreatedAt = 200, resp_UpdatedAt = 200 \<rparr>"
    by (simp add: ex_defs svc_defs)
  have g: "fst (GetUserByID (ex_env 200) 1 ex_cold) = Inr (ToDTO ex_alice)"
    by (simp add: ex_defs svc_defs)
  have m: "isl (cache_Get (env_cache_read (ex_env 200)) (env_now (ex_env 200)) (cacheKey 1) zeroUser (Redis ex_cold))"
    by (simp add: ex_defs cache_Get_def)
  have u: "fst (UpdateUser (ex_env 200) 1 ex_rename ex_cold) = Inr (ToDTO (ex_alice\<lparr>Username := ''alicia'', UpdatedAt := 200\<rparr>))"
    by (simp add: ex_defs svc_defs)
  have w: "env_cache_write (ex_env 200) = None" by (simp add: ex_defs)
  have k: "''user:1'' \<noteq> cacheKey 2" by (simp add: cacheKey_2)
  have e: "Redis ex_cold ''user:1'' = None" by (simp add: ex_defs)
  from T[of 1] c w k e
  have "Redis (snd (CreateUser (ex_env 200) ex_signup ex_cold)) ''user:1'' = None
    \<and> map_option ce_expiration (Redis (snd (CreateUser (ex_env 200) ex_signup ex_cold)) (cacheKey 2)) = Some Hour"
    by auto
  moreover from T[of 1] g m w
  have "map_option ce_expiration (Redis (snd (GetUserByID (ex_env 200) 1 ex_cold)) (cacheKey 1)) = Some Hour"
    by auto
  moreover from T[of 1] u w
  have "map_option ce_expiration (Redis (snd (UpdateUser (ex_env 200) 1 ex_rename ex_cold)) (cacheKey 1)) = Some Hour"
    by auto
  ultimately show ?thesis using c g u by (simp add: cacheKey_1 cacheKey_2 Hour_def)
qed

theorem cache_key_counterexample:
  "cacheKey 7 = ''user:7'' \<and> take 7 (cacheKey 7) \<noteq> ''entity:''"
  by (simp add: cacheKey_def Sprintf_d_def digit_def)

section \<open>Patching and the public view of a user\<close>

text \<open>
  C9. For every user and every \<open>UpdateUserRequest\<close>, \<open>UpdateFromDTO\<close> leaves \<open>Username\<close>,
  \<open>Email\<close>, \<open>FirstName\<close> and \<open>LastName\<close> as they are when the request's field is the empty
  string and sets them to the request's value otherwise, so a patch cannot clear them;
  \<open>IsActive\<close> takes the value behind the pointer when it is not nil, \<open>False\<close> included, and
  is unchanged when it is nil; \<open>ID\<close>, \<open>Password\<close>, \<open>CreatedAt\<close>, \<open>UpdatedAt\<close> and \<open>DeletedAt\<close>
  are unchanged. The row a successful \<open>UpdateUser\<close> leaves in the store is the row it
  read, patched by \<open>UpdateFromDTO\<close>, with the \<open>UpdatedAt\<close> the store sets on save.
\<close>

theorem UpdateFromDTO_patch:
  "(ur_Username req = [] \<longrightarrow> Username (UpdateFromDTO req u) = Username u)
   \<and> (ur_Email req = [] \<longrightarrow> Email (UpdateFromDTO req u) = Email u)
   \<and> (ur_FirstName req = [] \<longrightarrow> FirstName (UpdateFromDTO req u) = FirstName u)
   \<and> (ur_LastName req = [] \<longrightarrow> LastName (UpdateFromDTO req u) = LastName u)
   \<and> (ur_Username req \<noteq> [] \<longrightarrow> Username (UpdateFromDTO req u) = ur_Username req)
   \<and> (ur_Email req \<noteq> [] \<longrightarrow> Email (UpdateFromDTO req u) = ur_Email req)
   \<and> (ur_FirstName req \<noteq> [] \<longrightarrow> FirstName (UpdateFromDTO req u) = ur_FirstName req)
   \<and> (ur_LastName req \<noteq> [] \<longrightarrow> LastName (UpdateFromDTO req u) = ur_LastName req)
   \<and> (Username u \<noteq> [] \<longrightarrow> Username (UpdateFromDTO req u) \<noteq> [])
   \<and> (Email u \<noteq> [] \<longrightarrow> Email (UpdateFromDTO req u) \<noteq> [])
   \<and> (FirstName u \<noteq> [] \<longrightarrow> FirstName (UpdateFromDTO req u) \<noteq> [])
   \<and> (LastName u \<noteq> [] \<longrightarrow> LastName (UpdateFromDTO req u) \<noteq> [])
   \<and> IsActive (UpdateFromDTO req u) = (case ur_IsActive req of None \<Rightarrow> IsActive u | Some b \<Rightarrow> b)
   \<and> ID (UpdateFromDTO req u) = ID u
   \<and> Password (UpdateFromDTO req u) = Password u
   \<and> CreatedAt (UpdateFromDTO req u) = CreatedAt u
   \<and> UpdatedAt (UpdateFromDTO req u) = UpdatedAt u
   \<and> DeletedAt (UpdateFromDTO req u) = DeletedAt u
   \<and> (\<forall>resp. fst (UpdateUser e i req s) = Inr resp \<longrightarrow>
        (\<exists>r0. db_First None (DB s) i = Inr r0
            \<and> db_First None (DB (snd (UpdateUser e i req s))) i
                 = Inr ((UpdateFromDTO req r0)\<lparr>UpdatedAt := env_now e\<rparr>)))"
proof -
  have a: "(ur_Username req = [] \<longrightarrow> Username (UpdateFromDTO req u) = Username u)
   \<and> (ur_Email req = [] \<longrightarrow> Email (UpdateFromDTO req u) = Email u)
   \<and> (ur_FirstName req = [] \<longrightarrow> FirstName (UpdateFromDTO req u) = FirstName u)
   \<and> (ur_LastName req = [] \<longrightarrow> LastName (UpdateFromDTO req u) = LastName u)"
    by (simp add: UpdateFromDTO_def Let_def split: option.splits)
  have b: "(ur_Username req \<noteq> [] \<longrightarrow> Username (UpdateFromDTO req u) = ur_Username req)
   \<and> (ur_Email req \<noteq> [] \<longrightarrow> Email (UpdateFromDTO req u) = ur_Email req)
   \<and> (ur_FirstName req \<noteq> [] \<longrightarrow> FirstName (UpdateFromDTO req u) = ur_FirstName req)
   \<and> (ur_LastName req \<noteq> [] \<longrightarrow> LastName (UpdateFromDTO req u) = ur_LastName req)"
    by (simp add: UpdateFromDTO_def Let_def split: option.splits)
  have n: "(Username u \<noteq> [] \<longrightarrow> Username (UpdateFromDTO req u) \<noteq> [])
   \<and> (Email u \<noteq> [] \<longrightarrow> Email (UpdateFromDTO req u) \<noteq> [])
   \<and> (FirstName u \<noteq> [] \<longrightarrow> FirstName (UpdateFromDTO req u) \<noteq> [])
   \<and> (LastName u \<noteq> [] \<longrightarrow> LastName (UpdateFromDTO req u) \<noteq> [])"
    by (simp add: UpdateFromDTO_def Let_def split: option.splits)
  have c: "IsActive (UpdateFromDTO req u) = (case ur_IsActive req of None \<Rightarrow> IsActive u | Some b \<Rightarrow> b)
   \<and> ID (UpdateFromDTO req u) = ID u
   \<and> Password (UpdateFromDTO req u) = Password u
   \<and> CreatedAt (UpdateFromDTO req u) = CreatedAt u
   \<and> UpdatedAt (UpdateFromDTO req u) = UpdatedAt u
   \<and> DeletedAt (UpdateFromDTO req u) = DeletedAt u"
    by (simp add: UpdateFromDTO_def Let_def split: option.splits)
  have d: "\<exists>r0. db_First None (DB s) i = Inr r0
            \<and> db_First None (DB (snd (UpdateUser e i req s))) i
                 = Inr ((UpdateFromDTO req r0)\<lparr>UpdatedAt := env_now e\<rparr>)"
    if "fst (UpdateUser e i req s) = Inr resp" for resp
    using that by (rule UpdateUser_Inr) blast
  from a b n c d show ?thesis by blast
qed

theorem UpdateFromDTO_patch_witness:
  "ur_Username ex_deactivate = [] \<and> ur_IsActive ex_deactivate = Some False
   \<and> Username (UpdateFromDTO ex_deactivate ex_alice) = ''alice''
   \<and> Email (UpdateFromDTO ex_deactivate ex_alice) = ''alice@example.com''
   \<and> IsActive ex_alice = True
   \<and> IsActive (UpdateFromDTO ex_deactivate ex_alice) = False
   \<and> ur_Username ex_rename = ''alicia''
   \<and> Username (UpdateFromDTO ex_rename ex_alice) = ''alicia''
   \<and> fst (UpdateUser (ex_env 200) 1 ex_deactivate ex_cold)
        = Inr (ToDTO (ex_alice\<lparr>IsActive := False, UpdatedAt := 200\<rparr>))
   \<and> db_First None (DB (snd (UpdateUser (ex_env 200) 1 ex_deactivate ex_cold))) 1
        = Inr (ex_alice\<lparr>IsActive := False, UpdatedAt := 200\<rparr>)"
proof -
  have u: "fst (UpdateUser (ex_env 200) 1 ex_deactivate ex_cold)
        = Inr (ToDTO (ex_alice\<lparr>IsActive := False, UpdatedAt := 200\<rparr>))"
    by (simp add: ex_defs svc_defs)
  have f: "db_First None (DB ex_cold) 1 = Inr ex_alice"
    by (simp add: ex_defs db_First_def live_def)
  have p: "UpdateFromDTO ex_deactivate ex_alice = ex_alice\<lparr>IsActive := False\<rparr>"
    by (simp add: ex_defs UpdateFromDTO_def)
  have n: "env_now (ex_env 200) = 200" by (simp add: ex_defs)
  have 1: "db_First None (DB (snd (UpdateUser (ex_env 200) 1 ex_deactivate ex_cold))) 1
        = Inr (ex_alice\<lparr>IsActive := False, UpdatedAt := 200\<rparr>)"
    using UpdateFromDTO_patch[of ex_deactivate ex_alice "ex_env 200" 1 ex_cold] u f p n by auto
  have 2: "ur_Username ex_deactivate = [] \<and> ur_Email ex_deactivate = []
     \<and> ur_IsActive ex_deactivate = Some False \<and> ur_Username ex_rename = ''alicia''
     \<and> Username ex_alice = ''alice'' \<and> Email ex_alice = ''alice@example.com'' \<and> IsActive ex_alice = True"
    by (simp add: ex_defs)
  show ?thesis
    using UpdateFromDTO_patch[of ex_deactivate ex_alice "ex_env 200" 1 ex_cold]
      UpdateFromDTO_patch[of ex_rename ex_alice "ex_env 200" 1 ex_cold] u 1 2
    by simp
qed

text \<open>
  C10. Two users that agree on every field except \<open>Password\<close> have the same \<open>ToDTO\<close>, and
  the same cached JSON. Hence the responses do not depend on the stored hashes: rewriting
  the passwords of the table changes no response of \<open>GetUserByID\<close> or \<open>UpdateUser\<close> and no
  \<open>ToUserListDTO\<close>, and the response of \<open>CreateUser\<close> is the same for any two hashes that
  bcrypt may return.
\<close>

theorem ToDTO_ignores_Password:
  assumes "ID u = ID u'" and "Username u = Username u'" and "Email u = Email u'"
    and "FirstName u = FirstName u'" and "LastName u = LastName u'"
    and "IsActive u = IsActive u'" and "CreatedAt u = CreatedAt u'"
    and "UpdatedAt u = UpdatedAt u'" and "DeletedAt u = DeletedAt u'"
  shows "ToDTO u = ToDTO u'
     \<and> ToUserListDTO (map (\<lambda>r. r\<lparr>Password := f r\<rparr>) rows) = ToUserListDTO rows
     \<and> fst (GetUserByID e i (s\<lparr>DB := map (\<lambda>r. r\<lparr>Password := f r\<rparr>) (DB s)\<rparr>)) = fst (GetUserByID e i s)
     \<and> fst (UpdateUser e i upd (s\<lparr>DB := map (\<lambda>r. r\<lparr>Password := f r\<rparr>) (DB s)\<rparr>)) = fst (UpdateUser e i upd s)
     \<and> fst (CreateUser (e\<lparr>env_bcrypt := \<lambda>pw. Inr h\<rparr>) req s)
          = fst (CreateUser (e\<lparr>env_bcrypt := \<lambda>pw. Inr h'\<rparr>) req s)
     \<and> Marshal u = Marshal u'"
proof -
  have 1: "ToDTO u = ToDTO u'" using assms by (simp add: ToDTO_def)
  have 2: "ToUserListDTO (map (\<lambda>r. r\<lparr>Password := f r\<rparr>) rows) = ToUserListDTO rows"
    by (simp add: ToUserListDTO_def ToDTO_Password comp_def)
  have 3: "fst (CreateUser (e\<lparr>env_bcrypt := \<lambda>pw. Inr h\<rparr>) req s)
          = fst (CreateUser (e\<lparr>env_bcrypt := \<lambda>pw. Inr h'\<rparr>) req s)"
    by (rule CreateUser_hash[where h = h' and h' = h]) simp_all
  have 4: "Marshal u = Marshal u'" using assms by (simp add: Marshal_def)
  from 1 2 3 4 GetUserByID_passwords UpdateUser_passwords
  show ?thesis by simp
qed

theorem ToDTO_ignores_Password_witness:
  "Password ex_alice \<noteq> Password (ex_alice\<lparr>Password := ''$2a$10$other''\<rparr>)
   \<and> ToDTO ex_alice = ToDTO (ex_alice\<lparr>Password := ''$2a$10$other''\<rparr>)
   \<and> fst (GetUserByID (ex_env 200) 1 (ex_cold\<lparr>DB := map (\<lambda>r. r\<lparr>Password := ''x''\<rparr>) (DB ex_cold)\<rparr>))
       = Inr (ToDTO ex_alice)"
proof -
  have g: "fst (GetUserByID (ex_env 200) 1 ex_cold) = Inr (ToDTO ex_alice)"
    by (simp add: ex_defs svc_defs)
  have p: "Password ex_alice \<noteq> Password (ex_alice\<lparr>Password := ''$2a$10$other''\<rparr>)"
    by (simp add: ex_defs)
  show ?thesis
    using ToDTO_ignores_Password[where u = ex_alice and u' = "ex_alice\<lparr>Password := ''$2a$10$other''\<rparr>"
        and f = "\<lambda>r. ''x''" and e = "ex_env 200" and i = 1 and s = ex_cold] g p
    by simp
qed

section \<open>Request logging: what is redacted\<close>

lemma Contains_sublist: "Contains s w \<longleftrightarrow> sublist w s"
  by (induction s) (simp_all add: sublist_Cons_right)

lemma ToLower_ASCII: "list_all isASCII s \<Longrightarrow> ToLower L s = map lowerASCII s"
  by (simp add: ToLower_def)

lemma isSensitiveHeader_iff:
  "isSensitiveHeader L name \<longleftrightarrow>
     (\<exists>w \<in> {''authorization'', ''cookie'', ''x-api-key'', ''x-auth-token'', ''password''}.
        sublist w (ToLower L name))"
  by (simp add: isSensitiveHeader_def sensitiveHeaders_def Let_def Contains_sublist)

lemma containsSensitiveData_iff:
  "containsSensitiveData L body \<longleftrightarrow>
     (\<exists>w \<in> {''password'', ''token'', ''secret'', ''key'', ''auth'', ''credential''}.
        sublist w (ToLower L body))"
  by (simp add: containsSensitiveData_def sensitiveFields_def Let_def Contains_sublist)

lemma sublist_append_marker:
  assumes "y \<notin> set w" and "\<not> sublist w (y # ys)"
  shows "sublist w (xs @ y # ys) \<longleftrightarrow> sublist w xs"
proof
  assume "sublist w (xs @ y # ys)"
  then consider "sublist w xs" | "sublist w (y # ys)"
    | w1 w2 where "w = w1 @ w2" "suffix w1 xs" "prefix w2 (y # ys)"
    by (auto simp: sublist_append)
  then show "sublist w xs"
  proof cases
    case 3
    show ?thesis
    proof (cases w2)
      case Nil
      with 3 show ?thesis by (auto intro: suffix_imp_sublist)
    next
      case (Cons a as)
      with 3 have "a = y" by simp
      with Cons 3(1) assms(1) show ?thesis by simp
    qed
  qed (use assms in auto)
next
  assume "sublist w xs"
  then show "sublist w (xs @ y # ys)" by (simp add: sublist_append)
qed

lemma lowerASCII_marker: "map lowerASCII ''... [TRUNCATED]'' = ''... [truncated]''"
  by code_simp

lemma isASCII_marker: "list_all isASCII ''... [TRUNCATED]''"
  by (simp add: isASCII_def)

lemma marker_free:
  assumes "w \<in> {''password'', ''token'', ''secret'', ''key'', ''auth'', ''credential''}"
  shows "CHR ''.'' \<notin> set w" and "\<not> sublist w ''... [truncated]''"
proof -
  show "CHR ''.'' \<notin> set w" using assms by auto
  have "\<not> Contains ''... [truncated]'' w" using assms by auto
  then show "\<not> sublist w ''... [truncated]''" by (simp add: Contains_sublist)
qed

lemma sensitive_truncated:
  assumes "list_all isASCII xs"
  shows "containsSensitiveData L (xs @ ''... [TRUNCATED]'') \<longleftrightarrow> containsSensitiveData L xs"
proof -
  have l: "ToLower L (xs @ ''... [TRUNCATED]'') = map lowerASCII xs @ ''... [truncated]''"
    using assms isASCII_marker by (simp add: ToLower_def lowerASCII_marker del: list.map)
  have l': "ToLower L xs = map lowerASCII xs" using assms by (simp add: ToLower_def)
  have F: "sublist w (map lowerASCII xs @ ''... [truncated]'') \<longleftrightarrow> sublist w (map lowerASCII xs)"
    if "w \<in> {''password'', ''token'', ''secret'', ''key'', ''auth'', ''credential''}" for w
  proof -
    have "sublist w (map lowerASCII xs @ CHR ''.'' # ''.. [truncated]'') \<longleftrightarrow> sublist w (map lowerASCII xs)"
      using marker_free[OF that] by (intro sublist_append_marker)
    then show ?thesis .
  qed
  show ?thesis unfolding containsSensitiveData_iff l l' by (rule bex_cong[OF refl]) (rule F)
qed

text \<open>
  C5, as the code has it. The \<open>headers\<close> field of the log record has one entry per request
  header. Its value is \<open>[REDACTED]\<close> when the lower-cased header name contains one of
  the five strings authorization, cookie, x-api-key, x-auth-token, password, and the
  header's values joined by a comma and a space otherwise. (The six strings token, secret,
  key, auth, credential and password are the list for bodies, not for headers.)
\<close>

theorem header_redaction:
  "LoggingMiddleware_headers L header name =
     (case header name of
        None \<Rightarrow> None
      | Some values \<Rightarrow>
          Some (if (\<exists>w \<in> {''authorization'', ''cookie'', ''x-api-key'', ''x-auth-token'', ''password''}.
                     sublist w (ToLower L name))
                then ''[REDACTED]'' else Join values '', ''))
   \<and> (list_all isASCII name \<longrightarrow> ToLower L name = map lowerASCII name)"
  by (simp add: LoggingMiddleware_headers_def isSensitiveHeader_iff ToLower_ASCII split: option.splits)

theorem header_redaction_witness:
  "list_all isASCII ''Authorization''
   \<and> ToLower ex_lower ''Authorization'' = ''authorization''
   \<and> LoggingMiddleware_headers ex_lower ex_header ''Authorization'' = Some ''[REDACTED]''
   \<and> ToLower ex_lower ''Accept'' = ''accept''
   \<and> LoggingMiddleware_headers ex_lower ex_header ''Accept'' = Some ''text/html, application/json''
   \<and> LoggingMiddleware_headers ex_lower ex_header ''Host'' = None"
proof -
  have a: "list_all isASCII ''Authorization''" "list_all isASCII ''Accept''" by code_simp+
  have l: "map lowerASCII ''Authorization'' = ''authorization''" "map lowerASCII ''Accept'' = ''accept''"
    by code_simp+
  have h: "ex_header ''Authorization'' = Some [''Bearer eyJhbGciOi'']"
    "ex_header ''Accept'' = Some [''text/html'', ''application/json'']"
    "ex_header ''Host'' = None"
    by (simp_all add: ex_header_def)
  have s1: "sublist ''authorization'' ''authorization''" by simp
  have s2: "\<not> (\<exists>w \<in> {''authorization'', ''cookie'', ''x-api-key'', ''x-auth-token'', ''password''}.
                     sublist w ''accept'')"
    by (simp add: Contains_sublist[symmetric])
  from header_redaction[of ex_lower ex_header "''Authorization''"] a l h s1
  have 1: "ToLower ex_lower ''Authorization'' = ''authorization''
     \<and> LoggingMiddleware_headers ex_lower ex_header ''Authorization'' = Some ''[REDACTED]''"
    by simp
  from header_redaction[of ex_lower ex_header "''Accept''"] a(2) l(2) h(2) s2
  have 2: "ToLower ex_lower ''Accept'' = ''accept''
     \<and> LoggingMiddleware_headers ex_lower ex_header ''Accept'' = Some ''text/html, application/json''"
    by simp
  from header_redaction[of ex_lower ex_header "''Host''"] h(3)
  have 3: "LoggingMiddleware_headers ex_lower ex_header ''Host'' = None" by simp
  from a(1) 1 2 3 show ?thesis by simp
qed

theorem header_redaction_counterexample:
  "ToLower ex_lower ''X-Token'' = ''x-token''
   \<and> Contains (ToLower ex_lower ''X-Token'') ''token''
   \<and> isSensitiveHeader ex_lower ''X-Token'' = False
   \<and> LoggingMiddleware_headers ex_lower ex_header ''X-Token'' = Some ''eyJhbGciOi''"
  by code_simp

lemma LoggingMiddleware_request_body_long_ASCII:
  assumes "length body > 1000" and "list_all isASCII body"
  shows "LoggingMiddleware_request_body L body =
          Some (if (\<exists>w \<in> {''password'', ''token'', ''secret'', ''key'', ''auth'', ''credential''}.
                       sublist w (map lowerASCII (take 1000 body)))
                then ''[CONTAINS SENSITIVE DATA]'' else take 1000 body @ ''... [TRUNCATED]'')"
proof -
  have a: "list_all isASCII (take 1000 body)"
    using assms(2) by (auto simp: list_all_iff dest: in_set_takeD)
  have "containsSensitiveData L (take 1000 body @ ''... [TRUNCATED]'')
          \<longleftrightarrow> containsSensitiveData L (take 1000 body)"
    by (rule sensitive_truncated[OF a])
  also have "\<dots> \<longleftrightarrow> (\<exists>w \<in> {''password'', ''token'', ''secret'', ''key'', ''auth'', ''credential''}.
                     sublist w (map lowerASCII (take 1000 body)))"
    unfolding containsSensitiveData_iff ToLower_ASCII[OF a] ..
  finally have c: "containsSensitiveData L (take 1000 body @ ''... [TRUNCATED]'')
      \<longleftrightarrow> (\<exists>w \<in> {''password'', ''token'', ''secret'', ''key'', ''auth'', ''credential''}.
                     sublist w (map lowerASCII (take 1000 body)))" .
  from assms(1) have "body \<noteq> []" by auto
  with assms(1) have "LoggingMiddleware_request_body L body =
     Some (if containsSensitiveData L (take 1000 body @ ''... [TRUNCATED]'')
           then ''[CONTAINS SENSITIVE DATA]'' else take 1000 body @ ''... [TRUNCATED]'')"
    by (simp add: LoggingMiddleware_request_body_def Let_def del: append.simps)
  then show ?thesis unfolding c .
qed

text \<open>
  C6, as the code has it. An empty body gives no \<open>request_body\<close> field. A body of more than
  1000 bytes is first cut to its first 1000 bytes followed by \<open>... [TRUNCATED]\<close>; then,
  if the lower-cased text so obtained contains one of password, token, secret, key, auth,
  credential, the field is exactly \<open>[CONTAINS SENSITIVE DATA]\<close>, and otherwise it is that
  text. For a body of ASCII bytes longer than 1000 the outcome depends on its first 1000
  bytes only: the marker when they contain one of the six strings, the truncated text
  otherwise.
\<close>

theorem body_logging:
  "LoggingMiddleware_request_body L [] = None
   \<and> (body \<noteq> [] \<longrightarrow>
        LoggingMiddleware_request_body L body =
          Some (let shown = (if length body > 1000 then take 1000 body @ ''... [TRUNCATED]'' else body)
                in if (\<exists>w \<in> {''password'', ''token'', ''secret'', ''key'', ''auth'', ''credential''}.
                          sublist w (ToLower L shown))
                   then ''[CONTAINS SENSITIVE DATA]'' else shown))
   \<and> (length body > 1000 \<and> list_all isASCII body \<longrightarrow>
        LoggingMiddleware_request_body L body =
          Some (if (\<exists>w \<in> {''password'', ''token'', ''secret'', ''key'', ''auth'', ''credential''}.
                       sublist w (map lowerASCII (take 1000 body)))
                then ''[CONTAINS SENSITIVE DATA]'' else take 1000 body @ ''... [TRUNCATED]''))"
proof -
  have 1: "LoggingMiddleware_request_body L [] = None" by (simp add: LoggingMiddleware_request_body_def)
  have 2: "LoggingMiddleware_request_body L body =
          Some (let shown = (if length body > 1000 then take 1000 body @ ''... [TRUNCATED]'' else body)
                in if (\<exists>w \<in> {''password'', ''token'', ''secret'', ''key'', ''auth'', ''credential''}.
                          sublist w (ToLower L shown))
                   then ''[CONTAINS SENSITIVE DATA]'' else shown)" if "body \<noteq> []"
    using that unfolding LoggingMiddleware_request_body_def Let_def containsSensitiveData_iff by simp
  have 3: "LoggingMiddleware_request_body L body =
          Some (if (\<exists>w \<in> {''password'', ''token'', ''secret'', ''key'', ''auth'', ''credential''}.
                       sublist w (map lowerASCII (take 1000 body)))
                then ''[CONTAINS SENSITIVE DATA]'' else take 1000 body @ ''... [TRUNCATED]'')"
    if "length body > 1000 \<and> list_all isASCII body"
    using that by (intro LoggingMiddleware_request_body_long_ASCII) simp_all
  from 1 2 3 show ?thesis by blast
qed


lemma ex_long_body_facts:
  "length ex_long_body = 1018" "take 1000 ex_long_body = replicate 1000 (CHR ''a'')"
  "list_all isASCII ex_long_body"
  by (simp_all add: ex_long_body_def isASCII_def list_all_iff)

lemma ex_long_sensitive_body_facts:
  "length ex_long_sensitive_body = 1022"
  "take 1000 ex_long_sensitive_body = ''password=hunter22&pad='' @ replicate 978 (CHR ''a'')"
  "list_all isASCII ex_long_sensitive_body"
  by (simp_all add: ex_long_sensitive_body_def isASCII_def list_all_iff)

lemma filler_not_sensitive:
  assumes "w \<in> {''password'', ''token'', ''secret'', ''key'', ''auth'', ''credential''}"
  shows "\<not> sublist w (replicate n (CHR ''a''))"
proof
  assume "sublist w (replicate n (CHR ''a''))"
  then have "set w \<subseteq> set (replicate n (CHR ''a''))" by (rule set_mono_sublist)
  then have "set w \<subseteq> {CHR ''a''}" by (auto simp: set_replicate_conv_if split: if_splits)
  with assms show False by auto
qed

theorem body_logging_witness:
  "LoggingMiddleware_request_body ex_lower ''username=bob&password=hunter22'' = Some ''[CONTAINS SENSITIVE DATA]''
   \<and> LoggingMiddleware_request_body ex_lower ''username=bob&lastName=B'' = Some ''username=bob&lastName=B''
   \<and> 1000 < length ex_long_sensitive_body \<and> list_all isASCII ex_long_sensitive_body
   \<and> LoggingMiddleware_request_body ex_lower ex_long_sensitive_body = Some ''[CONTAINS SENSITIVE DATA]''"
proof -
  have l: "ToLower ex_lower ''username=bob&password=hunter22'' = ''username=bob&password=hunter22''"
    "ToLower ex_lower ''username=bob&lastName=B'' = ''username=bob&lastname=b''"
    by code_simp+
  have s1: "sublist ''password'' ''username=bob&password=hunter22''"
    by (simp add: Contains_sublist[symmetric])
  have s2: "\<not> (\<exists>w \<in> {''password'', ''token'', ''secret'', ''key'', ''auth'', ''credential''}.
               sublist w ''username=bob&lastname=b'')"
    by (simp add: Contains_sublist[symmetric])
  from body_logging[of ex_lower "''username=bob&password=hunter22''"] l(1) s1
  have 1: "LoggingMiddleware_request_body ex_lower ''username=bob&password=hunter22'' = Some ''[CONTAINS SENSITIVE DATA]''"
    by (simp add: Let_def)
  from body_logging[of ex_lower "''username=bob&lastName=B''"] l(2) s2
  have 2: "LoggingMiddleware_request_body ex_lower ''username=bob&lastName=B'' = Some ''username=bob&lastName=B''"
    by (simp add: Let_def)
  have m: "map lowerASCII ''password=hunter22&pad='' = ''password=hunter22&pad=''" by code_simp
  have s3: "sublist ''password'' (map lowerASCII (take 1000 ex_long_sensitive_body))"
    unfolding ex_long_sensitive_body_facts map_append m sublist_def
    by (intro exI[of _ "[]"] exI[of _ "''=hunter22&pad='' @ map lowerASCII (replicate 978 (CHR ''a''))"]) simp
  have h: "1000 < length ex_long_sensitive_body \<and> list_all isASCII ex_long_sensitive_body"
    by (simp add: ex_long_sensitive_body_facts)
  from body_logging[of ex_lower ex_long_sensitive_body] h s3
  have 3: "LoggingMiddleware_request_body ex_lower ex_long_sensitive_body = Some ''[CONTAINS SENSITIVE DATA]''"
    by auto
  from 1 2 3 h show ?thesis by simp
qed

theorem body_logging_counterexample:
  "ex_long_body \<noteq> []
   \<and> Contains (ToLower ex_lower ex_long_body) ''password''
   \<and> LoggingMiddleware_request_body ex_lower ex_long_body = Some (replicate 1000 (CHR ''a'') @ ''... [TRUNCATED]'')"
proof -
  have 1: "ex_long_body \<noteq> []" by (simp add: ex_long_body_def)
  have low: "ToLower ex_lower ex_long_body = replicate 1000 (CHR ''a'') @ ''&password=hunter22''"
  proof -
    have "map lowerASCII ''&password=hunter22'' = ''&password=hunter22''" by code_simp
    moreover have "lowerASCII (CHR ''a'') = CHR ''a''" by code_simp
    ultimately show ?thesis
      using ex_long_body_facts(3) by (simp add: ToLower_def ex_long_body_def del: list.map)
  qed
  have 2: "Contains (ToLower ex_lower ex_long_body) ''password''"
    unfolding low Contains_sublist sublist_def
    by (intro exI[of _ "replicate 1000 (CHR ''a'') @ ''&''"] exI[of _ "''=hunter22''"]) simp
  have n: "\<not> (\<exists>w \<in> {''password'', ''token'', ''secret'', ''key'', ''auth'', ''credential''}.
               sublist w (map lowerASCII (take 1000 ex_long_body)))"
  proof -
    have "lowerASCII (CHR ''a'') = CHR ''a''" by code_simp
    then have "map lowerASCII (take 1000 ex_long_body) = replicate 1000 (CHR ''a'')"
      by (simp add: ex_long_body_facts)
    then show ?thesis using filler_not_sensitive[of _ 1000] by auto
  qed
  have 3: "LoggingMiddleware_request_body ex_lower ex_long_body = Some (replicate 1000 (CHR ''a'') @ ''... [TRUNCATED]'')"
    using LoggingMiddleware_request_body_long_ASCII[of ex_long_body ex_lower] n ex_long_body_facts by simp
  from 1 2 3 show ?thesis by simp
qed

section \<open>Event publishing: routing keys and bodies\<close>

lemma PublishJSON_Inr:
  "PublishJSON mf pf r key data = Inr m \<Longrightarrow>
     pub_key m = key \<and> pub_Body m = data \<and> pub_ContentType m = ''application/json''
     \<and> (\<exists>p. r = Some p \<and> channel p \<and> pub_exchange m = exchange p)"
  by (auto simp: PublishJSON_def split: option.splits if_splits)

text \<open>
  C7, as the code has it. A message published by \<open>PublishUserEvent\<close> has the routing key
  \<open>user.\<close> followed by the event type and a body with exactly the four members
  \<open>event_type\<close>, \<open>user_id\<close>, \<open>data\<close> and \<open>timestamp\<close>; one published by \<open>PublishSystemEvent\<close> has
  the routing key \<open>system.\<close> followed by the event type and a body with exactly the three
  members \<open>event_type\<close>, \<open>data\<close> and \<open>timestamp\<close>. \<open>event_type\<close> is the event type, \<open>user_id\<close> the
  id passed in, \<open>data\<close> the payload and \<open>timestamp\<close> the Unix time in seconds as a decimal
  string; the content type is \<open>application/json\<close>. With an open channel and no error from
  the encoder or the broker both wrappers do publish.
\<close>

theorem event_shape:
  "(PublishUserEvent mf pf ts r ty uid d = Inr m \<longrightarrow>
      pub_key m = ''user.'' @ ty
      \<and> dom (pub_Body m) = {''event_type'', ''user_id'', ''data'', ''timestamp''}
      \<and> pub_Body m ''event_type'' = Some (MString ty)
      \<and> pub_Body m ''user_id'' = Some (MUint uid)
      \<and> pub_Body m ''data'' = Some (MData d)
      \<and> pub_Body m ''timestamp'' = Some (MString (Sprintf_d (sint ts)))
      \<and> pub_ContentType m = ''application/json'')
   \<and> (PublishSystemEvent mf pf ts r ty d = Inr m' \<longrightarrow>
      pub_key m' = ''system.'' @ ty
      \<and> dom (pub_Body m') = {''event_type'', ''data'', ''timestamp''}
      \<and> pub_Body m' ''event_type'' = Some (MString ty)
      \<and> pub_Body m' ''data'' = Some (MData d)
      \<and> pub_Body m' ''timestamp'' = Some (MString (Sprintf_d (sint ts)))
      \<and> pub_ContentType m' = ''application/json'')
   \<and> (channel p \<longrightarrow>
        (\<exists>m. PublishUserEvent None None ts (Some p) ty uid d = Inr m)
        \<and> (\<exists>m. PublishSystemEvent None None ts (Some p) ty d = Inr m))"
proof -
  have 1: "pub_key m = ''user.'' @ ty
      \<and> dom (pub_Body m) = {''event_type'', ''user_id'', ''data'', ''timestamp''}
      \<and> pub_Body m ''event_type'' = Some (MString ty)
      \<and> pub_Body m ''user_id'' = Some (MUint uid)
      \<and> pub_Body m ''data'' = Some (MData d)
      \<and> pub_Body m ''timestamp'' = Some (MString (Sprintf_d (sint ts)))
      \<and> pub_ContentType m = ''application/json''"
    if "PublishUserEvent mf pf ts r ty uid d = Inr m"
    using PublishJSON_Inr[OF that[unfolded PublishUserEvent_def Let_def]] by auto
  have 2: "pub_key m' = ''system.'' @ ty
      \<and> dom (pub_Body m') = {''event_type'', ''data'', ''timestamp''}
      \<and> pub_Body m' ''event_type'' = Some (MString ty)
      \<and> pub_Body m' ''data'' = Some (MData d)
      \<and> pub_Body m' ''timestamp'' = Some (MString (Sprintf_d (sint ts)))
      \<and> pub_ContentType m' = ''application/json''"
    if "PublishSystemEvent mf pf ts r ty d = Inr m'"
    using PublishJSON_Inr[OF that[unfolded PublishSystemEvent_def Let_def]] by auto
  have 3: "(\<exists>m. PublishUserEvent None None ts (Some p) ty uid d = Inr m)
        \<and> (\<exists>m. PublishSystemEvent None None ts (Some p) ty d = Inr m)" if "channel p"
    using that by (simp add: PublishUserEvent_def PublishSystemEvent_def PublishJSON_def Let_def)
  from 1 2 3 show ?thesis by blast
qed

theorem event_shape_witness:
  "PublishUserEvent None None 1700000000 ex_publisher ''created'' 123 ''payload'' =
     Inr \<lparr> pub_exchange = ''events'', pub_key = ''user.created'', pub_mandatory = False,
           pub_immediate = False, pub_ContentType = ''application/json'',
           pub_Body = [''event_type'' \<mapsto> MString ''created'', ''user_id'' \<mapsto> MUint 123,
                       ''data'' \<mapsto> MData ''payload'', ''timestamp'' \<mapsto> MString ''1700000000''] \<rparr>
   \<and> dom [''event_type'' \<mapsto> MString ''created'', ''user_id'' \<mapsto> MUint 123,
           ''data'' \<mapsto> MData ''payload'', ''timestamp'' \<mapsto> MString ''1700000000'']
        = {''event_type'', ''user_id'', ''data'', ''timestamp''}
   \<and> PublishSystemEvent None None 1700000000 ex_publisher ''health_check'' ''ok'' =
     Inr \<lparr> pub_exchange = ''events'', pub_key = ''system.health_check'', pub_mandatory = False,
           pub_immediate = False, pub_ContentType = ''application/json'',
           pub_Body = [''event_type'' \<mapsto> MString ''health_check'',
                       ''data'' \<mapsto> MData ''ok'', ''timestamp'' \<mapsto> MString ''1700000000''] \<rparr>
   \<and> dom [''event_type'' \<mapsto> MString ''health_check'',
                       ''data'' \<mapsto> MData ''ok'', ''timestamp'' \<mapsto> MString ''1700000000'']
        = {''event_type'', ''data'', ''timestamp''}"
proof -
  have t: "Sprintf_d 1700000000 = ''1700000000''"
    by (simp add: Sprintf_d_def digit_def)
  have u: "PublishUserEvent None None 1700000000 ex_publisher ''created'' 123 ''payload'' =
     Inr \<lparr> pub_exchange = ''events'', pub_key = ''user.created'', pub_mandatory = False,
           pub_immediate = False, pub_ContentType = ''application/json'',
           pub_Body = [''event_type'' \<mapsto> MString ''created'', ''user_id'' \<mapsto> MUint 123,
                       ''data'' \<mapsto> MData ''payload'', ''timestamp'' \<mapsto> MString ''1700000000''] \<rparr>"
    by (simp add: PublishUserEvent_def PublishJSON_def ex_publisher_def t)
  have s: "PublishSystemEvent None None 1700000000 ex_publisher ''health_check'' ''ok'' =
     Inr \<lparr> pub_exchange = ''events'', pub_key = ''system.health_check'', pub_mandatory = False,
           pub_immediate = False, pub_ContentType = ''application/json'',
           pub_Body = [''event_type'' \<mapsto> MString ''health_check'',
                       ''data'' \<mapsto> MData ''ok'', ''timestamp'' \<mapsto> MString ''1700000000''] \<rparr>"
    by (simp add: PublishSystemEvent_def PublishJSON_def ex_publisher_def t)
  from event_shape[where m = "\<lparr> pub_exchange = ''events'', pub_key = ''user.created'', pub_mandatory = False,
           pub_immediate = False, pub_ContentType = ''application/json'',
           pub_Body = [''event_type'' \<mapsto> MString ''created'', ''user_id'' \<mapsto> MUint 123,
                       ''data'' \<mapsto> MData ''payload'', ''timestamp'' \<mapsto> MString ''1700000000''] \<rparr>",
          THEN conjunct1, rule_format, OF u]
  have 1: "dom [''event_type'' \<mapsto> MString ''created'', ''user_id'' \<mapsto> MUint 123,
           ''data'' \<mapsto> MData ''payload'', ''timestamp'' \<mapsto> MString ''1700000000'']
        = {''event_type'', ''user_id'', ''data'', ''timestamp''}"
    by simp
  from event_shape[where m' = "\<lparr> pub_exchange = ''events'', pub_key = ''system.health_check'', pub_mandatory = False,
           pub_immediate = False, pub_ContentType = ''application/json'',
           pub_Body = [''event_type'' \<mapsto> MString ''health_check'',
                       ''data'' \<mapsto> MData ''ok'', ''timestamp'' \<mapsto> MString ''1700000000''] \<rparr>",
          THEN conjunct2, THEN conjunct1, rule_format, OF s]
  have 2: "dom [''event_type'' \<mapsto> MString ''health_check'',
                       ''data'' \<mapsto> MData ''ok'', ''timestamp'' \<mapsto> MString ''1700000000'']
        = {''event_type'', ''data'', ''timestamp''}"
    by simp
  from u 1 s 2 show ?thesis by (intro conjI)
qed

theorem event_shape_counterexample:
  "map_sum id (\<lambda>m. (pub_key m, pub_Body m ''subject_id'', pub_Body m ''user_id''))
       (PublishUserEvent None None 1700000000 ex_publisher ''created'' 123 ''payload'')
     = Inr (''user.created'', None, Some (MUint 123))
   \<and> map_sum id (\<lambda>m. (pub_key m, pub_Body m ''subject_id'', pub_Body m ''user_id''))
       (PublishSystemEvent None None 1700000000 ex_publisher ''health_check'' ''ok'')
     = Inr (''system.health_check'', None, None)"
  by (simp add: PublishUserEvent_def PublishSystemEvent_def PublishJSON_def ex_publisher_def)

section \<open>Pagination arithmetic\<close>

lemma sint64_self: "- (2^63) \<le> k \<Longrightarrow> k < 2^63 \<Longrightarrow> sint (word_of_int k :: 64 word) = k"
  by (simp add: sint_sbintrunc' signed_take_bit_int_eq_self)

lemma ceil_div:
  assumes "0 < (p::int)"
  shows "- (- t div p) = (t + p - 1) div p"
proof -
  define q r where "q = t div p" and "r = t mod p"
  have t: "t = r + q * p" and r: "0 \<le> r" "r < p"
    using assms by (simp_all add: q_def r_def)
  have pnz: "p \<noteq> 0" using assms by simp
  have A: "(t + p - 1) div p = q + (r + p - 1) div p"
  proof -
    have e: "t + p - 1 = (r + p - 1) + q * p" by (subst t) simp
    have d: "((r + p - 1) + q * p) div p = q + (r + p - 1) div p"
      by (rule div_mult_self1[OF pnz])
    show ?thesis by (simp only: e d)
  qed
  have B: "(r + p - 1) div p = (if r = 0 then 0 else 1)"
  proof (cases "r = 0")
    case True
    then show ?thesis using assms by simp
  next
    case False
    have e: "r + p - 1 = (r - 1) + 1 * p" by simp
    have "(r - 1 + 1 * p) div p = 1 + (r - 1) div p"
      by (rule div_mult_self1[OF pnz])
    moreover have "(r - 1) div p = 0" using False r by simp
    ultimately show ?thesis using False by (simp only: e) simp
  qed
  have C: "- t div p = (if r = 0 then - q else - q - 1)"
    using zdiv_zminus1_eq_if[OF pnz, of t] by (simp add: q_def r_def)
  show ?thesis unfolding A B C by simp
qed

lemma sdiv_nonneg: "0 \<le> (a::int) \<Longrightarrow> 0 < b \<Longrightarrow> a sdiv b = a div b"
  by (simp add: signed_divide_int_def sgn_if)

lemma sint_sum:
  fixes t p :: "64 word"
  assumes "0 \<le> sint t" "1 \<le> sint p" "sint t + sint p - 1 < 2^63"
  shows "sint (t + p - 1) = sint t + sint p - 1"
proof -
  have "t + p - 1 = word_of_int (sint t + sint p - 1)" by simp
  then have "sint (t + p - 1) = sint (word_of_int (sint t + sint p - 1) :: 64 word)" by simp
  also have "\<dots> = sint t + sint p - 1"
    using assms by (intro sint64_self) simp_all
  finally show ?thesis .
qed

text \<open>
  C2, as the code has it. For \<open>currentPage \<ge> 1\<close>, \<open>perPage\<close> in 1..100 and \<open>totalItems \<ge> 0\<close>
  with \<open>totalItems + perPage - 1\<close> inside \<open>int64\<close> (that is \<open>totalItems \<le> 2^63 - perPage\<close>),
  \<open>NewPaginationMeta\<close> returns, with \<open>totalPages\<close> the ceiling of \<open>totalItems / perPage\<close>,
  \<open>hasNextPage = (currentPage < totalPages)\<close> and \<open>hasPrevPage = (currentPage > 1)\<close>. In
  particular 47 items at 10 per page give 5 pages, page 5 having no next and a previous
  page; 0 items give 0 pages and no next page on any page, and no previous page on page 1.
\<close>

theorem pagination_meta:
  assumes c: "1 \<le> sint currentPage"
    and p: "1 \<le> sint perPage" "sint perPage \<le> 100"
    and t: "0 \<le> sint totalItems" "sint totalItems + sint perPage - 1 < 2^63"
  shows "\<exists>m. NewPaginationMeta currentPage perPage totalItems = Some m
     \<and> sint (TotalPages m) = \<lceil>real_of_int (sint totalItems) / real_of_int (sint perPage)\<rceil>
     \<and> HasNextPage m = (sint currentPage < sint (TotalPages m))
     \<and> HasPrevPage m = (1 < sint currentPage)
     \<and> CurrentPage m = currentPage \<and> PerPage m = perPage \<and> TotalItems m = totalItems
     \<and> (totalItems = 0 \<longrightarrow> TotalPages m = 0 \<and> \<not> HasNextPage m)"
proof -
  let ?n = "sint totalItems + sint perPage - 1"
  have nz: "perPage \<noteq> 0" using p by auto
  have s: "sint (totalItems + perPage - 1) = ?n" using sint_sum[of totalItems perPage] p t by simp
  have n0: "0 \<le> ?n" using p t by simp
  have q: "?n sdiv sint perPage = ?n div sint perPage" using sdiv_nonneg[OF n0] p by simp
  have q0: "0 \<le> ?n div sint perPage" using n0 p by (simp add: pos_imp_zdiv_nonneg_iff)
  have qle: "?n div sint perPage \<le> ?n"
    using n0 p zdiv_mono2[of "sint totalItems + sint perPage - 1" 1 "sint perPage"] by simp
  have sq: "sint (word_of_int (?n div sint perPage) :: 64 word) = ?n div sint perPage"
    using q0 qle t by (intro sint64_self) simp_all
  have cl: "\<lceil>real_of_int (sint totalItems) / real_of_int (sint perPage)\<rceil> = ?n div sint perPage"
  proof -
    have "0 < sint perPage" using p by simp
    then show ?thesis by (simp only: ceiling_divide_eq_div ceil_div)
  qed
  have z: "?n div sint perPage = 0" if "totalItems = 0"
    using that p by simp
  have zz: "(word_of_int (?n div sint perPage) :: 64 word) = 0" if "totalItems = 0"
    using z[OF that] by simp
  show ?thesis
    unfolding NewPaginationMeta_def div64_def s q cl using nz sq c z zz by simp
qed

theorem pagination_meta_witness:
  "NewPaginationMeta 5 10 47
      = Some \<lparr> CurrentPage = 5, PerPage = 10, TotalPages = 5, TotalItems = 47,
               HasNextPage = False, HasPrevPage = True \<rparr>
   \<and> \<lceil>real_of_int (sint (47 :: int64)) / real_of_int (sint (10 :: int64))\<rceil> = 5
   \<and> NewPaginationMeta 1 10 0
      = Some \<lparr> CurrentPage = 1, PerPage = 10, TotalPages = 0, TotalItems = 0,
               HasNextPage = False, HasPrevPage = False \<rparr>"
proof -
  have e: "NewPaginationMeta 5 10 47
      = Some \<lparr> CurrentPage = 5, PerPage = 10, TotalPages = 5, TotalItems = 47,
               HasNextPage = False, HasPrevPage = True \<rparr>"
    "NewPaginationMeta 1 10 0
      = Some \<lparr> CurrentPage = 1, PerPage = 10, TotalPages = 0, TotalItems = 0,
               HasNextPage = False, HasPrevPage = False \<rparr>"
    by (simp_all add: NewPaginationMeta_def div64_def)
  have "\<exists>m. NewPaginationMeta 5 10 47 = Some m
     \<and> sint (TotalPages m) = \<lceil>real_of_int (sint (47 :: int64)) / real_of_int (sint (10 :: int64))\<rceil>"
    using pagination_meta[of 5 10 47] by auto
  with e(1) have "\<lceil>real_of_int (sint (47 :: int64)) / real_of_int (sint (10 :: int64))\<rceil> = 5"
    by simp
  with e show ?thesis by simp
qed

theorem pagination_meta_counterexample:
  "NewPaginationMeta 1 10 9223372036854775807
      = Some \<lparr> CurrentPage = 1, PerPage = 10, TotalPages = - 922337203685477580,
               TotalItems = 9223372036854775807, HasNextPage = False, HasPrevPage = False \<rparr>
   \<and> sint (- 922337203685477580 :: int64) = - 922337203685477580
   \<and> \<lceil>real_of_int (sint (9223372036854775807 :: int64)) / real_of_int (sint (10 :: int64))\<rceil>
        = 922337203685477581
   \<and> NewPaginationMeta 2 10 0
      = Some \<lparr> CurrentPage = 2, PerPage = 10, TotalPages = 0, TotalItems = 0,
               HasNextPage = False, HasPrevPage = True \<rparr>"
  by (simp add: NewPaginationMeta_def div64_def)

end
